theory Spec2Isabelle
  imports Main "HOL-Library.Word"
begin

unbundle bit_operations_syntax

section \<open>The binary property list codec of \<^verbatim>\<open>src/bplist.c\<close>\<close>

text \<open>
  The C extension parses a \<^verbatim>\<open>bplist00\<close> buffer into Python objects
  (\<^verbatim>\<open>parse_plist\<close>) and serialises Python objects into such a buffer
  (\<^verbatim>\<open>generate_plist\<close>). The embedding below follows the source function by
  function and keeps its names.

  Conventions of the embedding:
  \<^item> \<^verbatim>\<open>uint8_t\<close>, \<^verbatim>\<open>uint16_t\<close>, \<^verbatim>\<open>uint32_t\<close>, \<^verbatim>\<open>uint64_t\<close>/\<^verbatim>\<open>size_t\<close>
    are words of that width; \<^verbatim>\<open>int64_t\<close>/\<^verbatim>\<open>ssize_t\<close> is a 64-bit word read with
    \<open>sint\<close>. Integer arithmetic wraps as in C on an LP64 target.
  \<^item> The host is little-endian (the first branch of the source's
    \<^verbatim>\<open>#if __BYTE_ORDER__\<close>): an integer stored through a pointer cast is laid out least
    significant byte first, and the \<^verbatim>\<open>Swap...\<close> macros reverse bytes.
  \<^item> A pointer of the parser is its distance in bytes from \<^verbatim>\<open>state->data\<close>, an
    \<open>int\<close> (negative below the buffer). Addresses have 64 bits: where the source adds
    a number read from the file to a pointer, the sum is taken modulo 2^64 at the
    address of the buffer (\<open>ptr_add\<close>). A read outside the buffer is the error
    \<open>UndefinedBehaviour\<close>.
  \<^item> The generator's object buffer is the list of bytes before \<^verbatim>\<open>current_object\<close>
    together with its capacity; a write past the capacity is recorded as
    \<open>UndefinedBehaviour\<close>. Memory allocation itself is assumed to succeed.
  \<^item> A Python float is its IEEE-754 bit pattern. The three places where the source
    computes with doubles (the addition in \<^verbatim>\<open>parse_date\<close>, the subtraction and the
    conversions in \<^verbatim>\<open>generate_date\<close>, the widening in \<^verbatim>\<open>parse_float32\<close>) are
    evaluated exactly and rounded to nearest, ties to even.
\<close>

subsection \<open>Bytes and integers in host memory\<close>

type_synonym byte = "8 word"

text \<open>\<^verbatim>\<open>*(uintN_t* )p = w\<close> on the little-endian host: the \<open>n\<close> bytes written at \<open>p\<close>.\<close>

fun le_bytes :: "nat \<Rightarrow> 'a::len word \<Rightarrow> byte list" where
  "le_bytes 0 w = []"
| "le_bytes (Suc n) w = ucast w # le_bytes n (drop_bit 8 w)"

text \<open>\<^verbatim>\<open>*(uintN_t* )p\<close> on the little-endian host: the integer held by the bytes at \<open>p\<close>.\<close>

fun le_word :: "byte list \<Rightarrow> 'a::len word" where
  "le_word [] = 0"
| "le_word (b # bs) = ucast b OR push_bit 8 (le_word bs)"

text \<open>
  The macro \<^verbatim>\<open>SwapBigToHost16(x) ((x & 0x00FF) << 8) | ((x & 0xFF00) >> 8)\<close>, applied
  at the integer type of its argument; \<^verbatim>\<open>__builtin_bswap32\<close> and
  \<^verbatim>\<open>__builtin_bswap64\<close> return their argument with the order of its bytes reversed.
\<close>

definition SwapBigToHost16 :: "'a::len word \<Rightarrow> 'a word" where
  "SwapBigToHost16 x = push_bit 8 (x AND 0x00FF) OR drop_bit 8 (x AND 0xFF00)"

definition SwapBigToHost32 :: "32 word \<Rightarrow> 32 word" where
  "SwapBigToHost32 x = le_word (rev (le_bytes 4 x))"

definition SwapBigToHost64 :: "64 word \<Rightarrow> 64 word" where
  "SwapBigToHost64 x = le_word (rev (le_bytes 8 x))"

abbreviation SwapHostToBig16 :: "'a::len word \<Rightarrow> 'a word" where
  "SwapHostToBig16 \<equiv> SwapBigToHost16"

abbreviation SwapHostToBig32 :: "32 word \<Rightarrow> 32 word" where
  "SwapHostToBig32 \<equiv> SwapBigToHost32"

abbreviation SwapHostToBig64 :: "64 word \<Rightarrow> 64 word" where
  "SwapHostToBig64 \<equiv> SwapBigToHost64"

text \<open>Reading \<open>n\<close> bytes at pointer \<open>p\<close> of a buffer; \<open>None\<close> outside the buffer.\<close>

definition load :: "byte list \<Rightarrow> int \<Rightarrow> nat \<Rightarrow> byte list option" where
  "load mem p n =
     (if 0 \<le> p \<and> nat p + n \<le> length mem then Some (take n (drop (nat p) mem)) else None)"

text \<open>
  \<open>ptr_add a p n\<close> is the pointer \<open>p + n\<close> when the buffer is at address \<open>a\<close>: the
  address \<open>a + p + n\<close> reduced modulo 2^64, again as a distance from the buffer.
  Comparing two pointers is comparing their distances.
\<close>

definition ptr_add :: "int \<Rightarrow> int \<Rightarrow> int \<Rightarrow> int" where
  "ptr_add a p n = (a + p + n) mod 2 ^ 64 - a"

text \<open>\<^verbatim>\<open>__builtin_clzll\<close>: the number of leading zero bits; undefined at 0 in C.\<close>

fun clz_from :: "nat \<Rightarrow> 64 word \<Rightarrow> nat" where
  "clz_from 0 x = 0"
| "clz_from (Suc n) x = (if bit x n then 0 else Suc (clz_from n x))"

definition clzll :: "64 word \<Rightarrow> nat" where
  "clzll x = clz_from 64 x"

subsection \<open>Python objects and errors\<close>

text \<open>
  The objects the codec consumes and produces. A \<^verbatim>\<open>str\<close> is its list of code points,
  a \<^verbatim>\<open>dict\<close> its items in insertion order, a \<^verbatim>\<open>float\<close> its IEEE-754 bit pattern.
  \<open>PyUid\<close> and \<open>PyTimestamp\<close> are \<^verbatim>\<open>bpylist.archive_types.uid\<close> (a subclass of
  \<^verbatim>\<open>int\<close>) and \<^verbatim>\<open>bpylist.archive_types.timestamp\<close> (a subclass of \<^verbatim>\<open>float\<close>);
  \<open>PyNone\<close> stands for any object of another type.
\<close>

datatype pyobj =
    PyBool bool
  | PyLong int
  | PyUid int
  | PyUnicode "nat list"
  | PyBytes "byte list"
  | PyByteArray "byte list"
  | PyFloat "64 word"
  | PyTimestamp "64 word"
  | PyList "pyobj list"
  | PyDict "(pyobj \<times> pyobj) list"
  | PyNone

datatype pyexc =
    SystemError | TypeError | MemoryError | OverflowError
  | UnicodeEncodeError | UnicodeDecodeError

text \<open>
  One constructor per \<^verbatim>\<open>PyErr_Format\<close>/\<^verbatim>\<open>PyErr_SetString\<close> site of the source,
  \<open>HostError\<close> for an exception raised inside a CPython API call, and two outcomes that
  are not exceptions: \<open>ProcessAbort\<close> (\<^verbatim>\<open>abort()\<close>) and \<open>UndefinedBehaviour\<close>.
\<close>

datatype error =
    InvalidHeader
  | TooShort
  | InvalidIntWidth
  | OffsetTableOutOfBounds
  | InvalidObjectIndex
  | ObjectOutOfBounds
  | InvalidDataLength
  | InvalidAsciiLength
  | InvalidUtf16Length
  | InvalidArrayLength
  | InvalidDictLength
  | UnknownType byte
  | UnsupportedType
  | ObjectSpaceOverflow
  | HostError pyexc
  | ProcessAbort
  | UndefinedBehaviour

subsection \<open>Doubles\<close>

text \<open>
  The value of a double: \<open>Finite s a e\<close> is \<open>(-1)^s * a * 2^e\<close>. The same type gives
  the value of a Python \<^verbatim>\<open>int\<close> (with \<open>e = 0\<close>) where numbers are compared.
\<close>

datatype numval = Finite bool nat int | Infinite bool | NaN

definition double_value :: "64 word \<Rightarrow> numval" where
  "double_value w =
     (let s = bit w 63;
          e = unat (take_bit 11 (drop_bit 52 w));
          m = unat (take_bit 52 w)
      in if e = 2047 then (if m = 0 then Infinite s else NaN)
         else if e = 0 then Finite s m (- 1074)
         else Finite s (2 ^ 52 + m) (int e - 1075))"

fun bitlen :: "nat \<Rightarrow> nat" where
  "bitlen n = (if n = 0 then 0 else Suc (bitlen (n div 2)))"

text \<open>\<open>a * 2^k\<close> rounded to the nearest integer, ties to even.\<close>

definition round_half_even :: "nat \<Rightarrow> int \<Rightarrow> nat" where
  "round_half_even a k =
     (if 0 \<le> k then a * 2 ^ nat k
      else let d = 2 ^ nat (- k); q = a div d; r = a mod d
           in if d < 2 * r \<or> (2 * r = d \<and> odd q) then q + 1 else q)"

definition sign_bit :: "bool \<Rightarrow> 64 word" where
  "sign_bit s = (if s then 0x8000000000000000 else 0)"

text \<open>The double nearest to \<open>(-1)^s * a * 2^e\<close>.\<close>

definition encode_double :: "bool \<Rightarrow> nat \<Rightarrow> int \<Rightarrow> 64 word" where
  "encode_double s a e =
     (if a = 0 then sign_bit s
      else
        let q0 = max (int (bitlen a) - 1 + e - 52) (- 1074);
            m0 = round_half_even a (e - q0);
            q = (if m0 = 2 ^ 53 then q0 + 1 else q0);
            m = (if m0 = 2 ^ 53 then 2 ^ 52 else m0)
        in if m < 2 ^ 52 then sign_bit s OR of_nat m
           else if 1023 < q + 52 then sign_bit s OR 0x7FF0000000000000
           else sign_bit s OR push_bit 52 (of_int (q + 1075)) OR of_nat (m - 2 ^ 52))"

definition signed_mag :: "bool \<Rightarrow> nat \<Rightarrow> int" where
  "signed_mag s a = (if s then - int a else int a)"

text \<open>
  Addition as the SSE2 instruction of an x86-64 host performs it: a NaN operand is
  returned with its quiet bit set, and the sum of opposite infinities is the default
  NaN.
\<close>

definition double_add :: "64 word \<Rightarrow> 64 word \<Rightarrow> 64 word" where
  "double_add x y =
     (case (double_value x, double_value y) of
        (NaN, _) \<Rightarrow> x OR 0x0008000000000000
      | (_, NaN) \<Rightarrow> y OR 0x0008000000000000
      | (Infinite s, Infinite t) \<Rightarrow> if s = t then x else 0xFFF8000000000000
      | (Infinite s, Finite t b f) \<Rightarrow> x
      | (Finite s a e, Infinite t) \<Rightarrow> y
      | (Finite s a e, Finite t b f) \<Rightarrow>
          let m = min e f;
              sum = signed_mag s (a * 2 ^ nat (e - m)) + signed_mag t (b * 2 ^ nat (f - m))
          in if sum = 0 then sign_bit (s \<and> t)
             else encode_double (sum < 0) (nat \<bar>sum\<bar>) m)"

definition double_sub :: "64 word \<Rightarrow> 64 word \<Rightarrow> 64 word" where
  "double_sub x y = double_add x (y XOR 0x8000000000000000)"

text \<open>\<^verbatim>\<open>(double)\<close> of a \<^verbatim>\<open>uint64_t\<close>, and \<^verbatim>\<open>(uint64_t)\<close> of a double: the value is
  truncated towards zero, and the conversion is undefined (\<open>None\<close>) when the truncated
  value is not a \<^verbatim>\<open>uint64_t\<close>.\<close>

definition double_of_uint64 :: "64 word \<Rightarrow> 64 word" where
  "double_of_uint64 n = encode_double False (unat n) 0"

definition uint64_of_double :: "64 word \<Rightarrow> 64 word option" where
  "uint64_of_double x =
     (case double_value x of
        Finite s a e \<Rightarrow>
          let v = (if 0 \<le> e then a * 2 ^ nat e else a div 2 ^ nat (- e))
          in if (s \<and> 0 < v) \<or> 2 ^ 64 \<le> v then None else Some (of_nat v)
      | _ \<Rightarrow> None)"

text \<open>\<^verbatim>\<open>(double)\<close> of a \<^verbatim>\<open>float\<close>, given and returned as bit patterns.\<close>

definition double_of_float :: "32 word \<Rightarrow> 64 word" where
  "double_of_float w =
     (let s = bit w 31;
          e = unat (take_bit 8 (drop_bit 23 w));
          m = unat (take_bit 23 w)
      in if e = 255 then
           sign_bit s OR 0x7FF0000000000000 OR push_bit 29 (of_nat m) OR
             (if m = 0 then 0 else 0x0008000000000000)
         else if e = 0 then encode_double s m (- 149)
         else encode_double s (2 ^ 23 + m) (int e - 150))"

text \<open>\<^verbatim>\<open>unix2apple_epoch_delta = 978307200.0\<close>.\<close>

definition unix2apple_epoch_delta :: "64 word" where
  "unix2apple_epoch_delta = 0x41CD27E440000000"

subsection \<open>Fixed-width integers: unpacking\<close>

definition plist_type_int8 :: byte where "plist_type_int8 = 0x10"
definition plist_type_int16 :: byte where "plist_type_int16 = 0x11"
definition plist_type_int32 :: byte where "plist_type_int32 = 0x12"
definition plist_type_int64 :: byte where "plist_type_int64 = 0x13"

text \<open>
  \<^verbatim>\<open>unpack_int\<close> switches on the whole marker byte; \<^verbatim>\<open>default\<close> shares the 8-byte case.
\<close>

definition unpack_int :: "byte \<Rightarrow> byte list \<Rightarrow> int \<Rightarrow> 64 word option" where
  "unpack_int int_width mem int_ptr =
     (if int_width = plist_type_int32 then
        map_option (\<lambda>bs. ucast (SwapBigToHost32 (le_word bs))) (load mem int_ptr 4)
      else if int_width = plist_type_int16 then
        map_option (\<lambda>bs. ucast (SwapBigToHost16 (ucast (le_word bs :: 16 word) :: 32 word)))
          (load mem int_ptr 2)
      else if int_width = plist_type_int8 then
        map_option (\<lambda>bs. ucast (le_word bs :: byte)) (load mem int_ptr 1)
      else
        map_option (\<lambda>bs. SwapBigToHost64 (le_word bs)) (load mem int_ptr 8))"

definition unpack_uint :: "64 word \<Rightarrow> byte list \<Rightarrow> int \<Rightarrow> 64 word option" where
  "unpack_uint int_width mem int_ptr =
     (if int_width = 4 then
        map_option (\<lambda>bs. ucast (SwapBigToHost32 (le_word bs))) (load mem int_ptr 4)
      else if int_width = 2 then
        map_option (\<lambda>bs. ucast (SwapBigToHost16 (ucast (le_word bs :: 16 word) :: 32 word)))
          (load mem int_ptr 2)
      else if int_width = 1 then
        map_option (\<lambda>bs. ucast (le_word bs :: byte)) (load mem int_ptr 1)
      else
        map_option (\<lambda>bs. SwapBigToHost64 (le_word bs)) (load mem int_ptr 8))"

subsection \<open>The CPython calls the parser makes\<close>

text \<open>
  \<^verbatim>\<open>PyByteArray_FromStringAndSize\<close> and \<^verbatim>\<open>PyUnicode_DecodeASCII\<close> raise
  \<^verbatim>\<open>SystemError\<close> on a negative size. \<^verbatim>\<open>PyUnicode_DecodeUTF16\<close> (strict, big-endian:
  \<^verbatim>\<open>byte_order = 1\<close>, so a byte order mark is an ordinary character) finds no pair of
  bytes to decode when the size is negative and reports truncated data, a
  \<^verbatim>\<open>UnicodeDecodeError\<close>.
\<close>

definition load8 :: "byte list \<Rightarrow> int \<Rightarrow> byte option" where
  "load8 mem p = (if 0 \<le> p \<and> nat p < length mem then Some (mem ! nat p) else None)"

definition PyByteArray_FromStringAndSize :: "byte list \<Rightarrow> int \<Rightarrow> int \<Rightarrow> error + pyobj" where
  "PyByteArray_FromStringAndSize mem p n =
     (if n < 0 then Inl (HostError SystemError)
      else case load mem p (nat n) of
             None \<Rightarrow> Inl UndefinedBehaviour
           | Some bs \<Rightarrow> Inr (PyByteArray bs))"

definition PyUnicode_DecodeASCII :: "byte list \<Rightarrow> int \<Rightarrow> int \<Rightarrow> error + pyobj" where
  "PyUnicode_DecodeASCII mem p n =
     (if n < 0 then Inl (HostError SystemError)
      else case load mem p (nat n) of
             None \<Rightarrow> Inl UndefinedBehaviour
           | Some bs \<Rightarrow>
               if list_all (\<lambda>b. b < 0x80) bs then Inr (PyUnicode (map unat bs))
               else Inl (HostError UnicodeDecodeError))"

fun utf16_units :: "byte list \<Rightarrow> nat list" where
  "utf16_units (hi # lo # bs) = (256 * unat hi + unat lo) # utf16_units bs"
| "utf16_units bs = []"

fun utf16_decode :: "nat list \<Rightarrow> nat list option" where
  "utf16_decode [] = Some []"
| "utf16_decode (u # us) =
     (if 0xD800 \<le> u \<and> u < 0xDC00 then
        (case us of
           [] \<Rightarrow> None
         | u2 # us' \<Rightarrow>
             if 0xDC00 \<le> u2 \<and> u2 < 0xE000 then
               map_option ((#) (0x10000 + (u - 0xD800) * 0x400 + (u2 - 0xDC00)))
                 (utf16_decode us')
             else None)
      else if 0xDC00 \<le> u \<and> u < 0xE000 then None
      else map_option ((#) u) (utf16_decode us))"

definition PyUnicode_DecodeUTF16 :: "byte list \<Rightarrow> int \<Rightarrow> int \<Rightarrow> error + pyobj" where
  "PyUnicode_DecodeUTF16 mem p n =
     (if n < 0 then Inl (HostError UnicodeDecodeError)
      else case load mem p (nat n) of
             None \<Rightarrow> Inl UndefinedBehaviour
           | Some bs \<Rightarrow>
               if odd (length bs) then Inl (HostError UnicodeDecodeError)
               else (case utf16_decode (utf16_units bs) of
                       None \<Rightarrow> Inl (HostError UnicodeDecodeError)
                     | Some cps \<Rightarrow> Inr (PyUnicode cps)))"

text \<open>
  \<^verbatim>\<open>PyList_New(n)\<close> fails for a negative size (\<^verbatim>\<open>SystemError\<close>) and for a size above
  \<^verbatim>\<open>PY_SSIZE_T_MAX / sizeof(PyObject* )\<close> (\<^verbatim>\<open>MemoryError\<close>).
\<close>

definition PyList_New :: "int \<Rightarrow> error + unit" where
  "PyList_New n =
     (if n < 0 then Inl (HostError SystemError)
      else if n > (2 ^ 63 - 1) div 8 then Inl (HostError MemoryError)
      else Inr ())"

text \<open>
  \<^verbatim>\<open>PyDict_SetItem\<close>: the key must be hashable (a \<^verbatim>\<open>bytearray\<close>, \<^verbatim>\<open>list\<close> or \<^verbatim>\<open>dict\<close>
  is not), and a key that compares equal to one already present replaces that item's
  value. Numbers compare by value across \<^verbatim>\<open>bool\<close>, \<^verbatim>\<open>int\<close> and \<^verbatim>\<open>float\<close> and their
  subclasses.
\<close>

text \<open>
  \<^verbatim>\<open>PyObject_CallObject\<close> on \<^verbatim>\<open>uid_class\<close> or \<^verbatim>\<open>ts_class\<close>, with the object the
  class builds. When the call is made while an exception is pending, the interpreter
  discards the result and raises \<^verbatim>\<open>SystemError\<close>.
\<close>

definition PyObject_CallObject :: "bool \<Rightarrow> pyobj \<Rightarrow> error + pyobj" where
  "PyObject_CallObject pending obj =
     (if pending then Inl (HostError SystemError) else Inr obj)"

definition int_value :: "int \<Rightarrow> numval" where
  "int_value n = Finite (n < 0) (nat \<bar>n\<bar>) 0"

fun py_number :: "pyobj \<Rightarrow> numval option" where
  "py_number (PyBool b) = Some (int_value (if b then 1 else 0))"
| "py_number (PyLong n) = Some (int_value n)"
| "py_number (PyUid n) = Some (int_value n)"
| "py_number (PyFloat w) = Some (double_value w)"
| "py_number (PyTimestamp w) = Some (double_value w)"
| "py_number x = None"

fun num_eq :: "numval \<Rightarrow> numval \<Rightarrow> bool" where
  "num_eq (Finite s a e) (Finite t b f) =
     (signed_mag s (a * 2 ^ nat (e - min e f)) = signed_mag t (b * 2 ^ nat (f - min e f)))"
| "num_eq (Infinite s) (Infinite t) = (s = t)"
| "num_eq x y = False"

fun py_hashable :: "pyobj \<Rightarrow> bool" where
  "py_hashable (PyByteArray bs) = False"
| "py_hashable (PyList xs) = False"
| "py_hashable (PyDict kvs) = False"
| "py_hashable x = True"

definition py_key_eq :: "pyobj \<Rightarrow> pyobj \<Rightarrow> bool" where
  "py_key_eq a b =
     (case (py_number a, py_number b) of
        (Some x, Some y) \<Rightarrow> num_eq x y
      | (None, None) \<Rightarrow>
          (case (a, b) of
             (PyUnicode s, PyUnicode t) \<Rightarrow> s = t
           | (PyBytes s, PyBytes t) \<Rightarrow> s = t
           | (PyNone, PyNone) \<Rightarrow> True
           | _ \<Rightarrow> False)
      | _ \<Rightarrow> False)"

fun dict_set :: "(pyobj \<times> pyobj) list \<Rightarrow> pyobj \<Rightarrow> pyobj \<Rightarrow> (pyobj \<times> pyobj) list" where
  "dict_set [] k v = [(k, v)]"
| "dict_set ((k', v') # d) k v =
     (if py_key_eq k' k then (k', v) # d else (k', v') # dict_set d k v)"

definition PyDict_SetItem ::
  "(pyobj \<times> pyobj) list \<Rightarrow> pyobj \<Rightarrow> pyobj \<Rightarrow> error + (pyobj \<times> pyobj) list" where
  "PyDict_SetItem d k v =
     (if py_hashable k then Inr (dict_set d k v) else Inl (HostError TypeError))"

subsection \<open>The object parser\<close>

text \<open>
  The C field \<^verbatim>\<open>data\<close> is a pointer: \<open>data_addr\<close> is its value, the address of the
  buffer, and \<open>data\<close> the bytes there. \<open>data_end\<close> and \<open>offset_table\<close> are pointers.
\<close>

record bplist_parse_state =
  data_addr :: int
  data :: "byte list"
  data_end :: int
  p_ref_size :: "64 word"
  p_offset_size :: "64 word"
  object_count :: "64 word"
  offset_table :: int

definition parse_int :: "byte \<Rightarrow> byte list \<Rightarrow> int \<Rightarrow> error + pyobj" where
  "parse_int type mem object =
     (case unpack_int type mem object of
        None \<Rightarrow> Inl UndefinedBehaviour
      | Some raw_int \<Rightarrow> Inr (PyLong (sint raw_int)))"

text \<open>
  \<^verbatim>\<open>parse_uid\<close> and \<^verbatim>\<open>parse_date\<close> end with a call of the class; \<open>pending\<close> tells
  whether an exception is pending when they run (see \<open>parse_dict_items\<close>).
\<close>

definition parse_uid :: "bool \<Rightarrow> byte \<Rightarrow> byte list \<Rightarrow> int \<Rightarrow> error + pyobj" where
  "parse_uid pending type mem object =
     (let width = ucast (type AND 0xF) + 1
      in case unpack_uint width mem object of
           None \<Rightarrow> Inl UndefinedBehaviour
         | Some raw_int \<Rightarrow> PyObject_CallObject pending (PyUid (uint raw_int)))"

definition parse_float32 :: "byte list \<Rightarrow> int \<Rightarrow> error + pyobj" where
  "parse_float32 mem object =
     (case load mem object 4 of
        None \<Rightarrow> Inl UndefinedBehaviour
      | Some bs \<Rightarrow> Inr (PyFloat (double_of_float (SwapBigToHost32 (le_word bs)))))"

definition parse_float64 :: "byte list \<Rightarrow> int \<Rightarrow> error + pyobj" where
  "parse_float64 mem object =
     (case load mem object 8 of
        None \<Rightarrow> Inl UndefinedBehaviour
      | Some bs \<Rightarrow> Inr (PyFloat (SwapBigToHost64 (le_word bs))))"

definition parse_date :: "bool \<Rightarrow> byte list \<Rightarrow> int \<Rightarrow> error + pyobj" where
  "parse_date pending mem object =
     (case load mem object 8 of
        None \<Rightarrow> Inl UndefinedBehaviour
      | Some bs \<Rightarrow>
          PyObject_CallObject pending
            (PyTimestamp (double_add unix2apple_epoch_delta (SwapBigToHost64 (le_word bs)))))"

text \<open>
  \<^verbatim>\<open>unpack_length\<close> returns the length (an \<^verbatim>\<open>ssize_t\<close>) and the advanced object
  pointer. In the long form the byte after the marker is not checked to be an int
  marker: its low nibble gives the distance to skip and the whole byte selects the
  width \<^verbatim>\<open>unpack_int\<close> reads. In this function and those below, \<open>a\<close> is the address
  of the buffer \<open>mem\<close>.
\<close>

definition unpack_length ::
  "byte \<Rightarrow> int \<Rightarrow> byte list \<Rightarrow> int \<Rightarrow> (64 word \<times> int) option" where
  "unpack_length type a mem object =
     (if type AND 0x0F = 0x0F then
        (case load8 mem object of
           None \<Rightarrow> None
         | Some int_type \<Rightarrow>
             (case unpack_int int_type mem (object + 1) of
                None \<Rightarrow> None
              | Some len \<Rightarrow>
                  Some (len, ptr_add a (object + 1) (2 ^ unat (int_type AND 0x0F)))))
      else Some (ucast (type AND 0x0F), object))"

definition parse_data :: "byte \<Rightarrow> int \<Rightarrow> byte list \<Rightarrow> int \<Rightarrow> int \<Rightarrow> error + pyobj" where
  "parse_data type a mem object object_end =
     (case unpack_length type a mem object of
        None \<Rightarrow> Inl UndefinedBehaviour
      | Some (len, object') \<Rightarrow>
          if ptr_add a object' (sint len) < object_end
          then PyByteArray_FromStringAndSize mem object' (sint len)
          else Inl InvalidDataLength)"

definition parse_ascii_string ::
  "byte \<Rightarrow> int \<Rightarrow> byte list \<Rightarrow> int \<Rightarrow> int \<Rightarrow> error + pyobj" where
  "parse_ascii_string type a mem object object_end =
     (case unpack_length type a mem object of
        None \<Rightarrow> Inl UndefinedBehaviour
      | Some (len, object') \<Rightarrow>
          if ptr_add a object' (sint len) < object_end
          then PyUnicode_DecodeASCII mem object' (sint len)
          else Inl InvalidAsciiLength)"

text \<open>\<^verbatim>\<open>length *= 2\<close> is a signed multiplication: its overflow is undefined.\<close>

definition parse_utf16_string ::
  "byte \<Rightarrow> int \<Rightarrow> byte list \<Rightarrow> int \<Rightarrow> int \<Rightarrow> error + pyobj" where
  "parse_utf16_string type a mem object object_end =
     (case unpack_length type a mem object of
        None \<Rightarrow> Inl UndefinedBehaviour
      | Some (len0, object') \<Rightarrow>
          let len = sint len0 * 2
          in if len < - (2 ^ 63) \<or> 2 ^ 63 \<le> len then Inl UndefinedBehaviour
             else if ptr_add a object' len < object_end
             then PyUnicode_DecodeUTF16 mem object' len
             else Inl InvalidUtf16Length)"

text \<open>
  \<^verbatim>\<open>parse_plist_object\<close>, \<^verbatim>\<open>parse_array\<close> and \<^verbatim>\<open>parse_dict\<close> are mutually recursive
  and follow the references of the file, which may form a cycle: the source has no
  visited set and no depth limit. The recursion is defined below; its straight-line
  parts come first.

  \<open>object_ref_of\<close> is the pointer \<^verbatim>\<open>object_ref\<close> to the slot of the offset table:
  \<^verbatim>\<open>offset_table + (object_index * offset_size)\<close>, a \<^verbatim>\<open>size_t\<close> product added to a
  pointer. \<open>object_of\<close> is the pointer \<^verbatim>\<open>data + offset\<close> to the object.

  \<open>locate_object\<close> is the head of \<^verbatim>\<open>parse_plist_object\<close> up to
  \<^verbatim>\<open>object_type = *object++\<close>: the slot of the offset table, the two range checks, the
  marker byte. It returns the marker and the advanced object pointer.
\<close>

definition object_ref_of :: "bplist_parse_state \<Rightarrow> 64 word \<Rightarrow> int" where
  "object_ref_of state object_index =
     ptr_add (data_addr state) (offset_table state)
       (int (unat (object_index * p_offset_size state)))"

definition object_of :: "bplist_parse_state \<Rightarrow> 64 word \<Rightarrow> int" where
  "object_of state off = ptr_add (data_addr state) 0 (int (unat off))"

definition locate_object :: "bplist_parse_state \<Rightarrow> 64 word \<Rightarrow> error + (byte \<times> int)" where
  "locate_object state object_index =
     (let object_ref = object_ref_of state object_index
      in if object_ref \<le> 0 \<or> object_ref \<ge> data_end state then Inl InvalidObjectIndex
         else (case unpack_uint (p_offset_size state) (data state) object_ref of
           None \<Rightarrow> Inl UndefinedBehaviour
         | Some off \<Rightarrow>
             (let object = object_of state off
              in if object \<le> 0 \<or> object \<ge> data_end state then Inl ObjectOutOfBounds
                 else (case load8 (data state) object of
                   None \<Rightarrow> Inl UndefinedBehaviour
                 | Some object_type \<Rightarrow> Inr (object_type, object + 1)))))"

text \<open>The cases of the \<^verbatim>\<open>switch (object_type & 0xF0)\<close> that do not recurse.\<close>

definition parse_scalar ::
  "bplist_parse_state \<Rightarrow> bool \<Rightarrow> byte \<Rightarrow> int \<Rightarrow> error + pyobj" where
  "parse_scalar state pending object_type object =
     (let tag = object_type AND 0xF0
      in if tag = 0x10 then parse_int object_type (data state) object
         else if tag = 0x80 then parse_uid pending object_type (data state) object
         else if tag = 0x50 then
           parse_ascii_string object_type (data_addr state) (data state) object (data_end state)
         else if tag = 0x60 then
           parse_utf16_string object_type (data_addr state) (data state) object (data_end state)
         else if tag = 0x40 then
           parse_data object_type (data_addr state) (data state) object (data_end state)
         else if tag = 0x00 then
           (if object_type = 0x08 then Inr (PyBool False)
            else if object_type = 0x09 then Inr (PyBool True)
            else Inl (UnknownType object_type))
         else if tag = 0x20 then
           (if object_type = 0x23 then parse_float64 (data state) object
            else if object_type = 0x22 then parse_float32 (data state) object
            else Inl (UnknownType object_type))
         else if tag = 0x30 then parse_date pending (data state) object
         else Inl (UnknownType object_type))"

text \<open>
  The head of \<^verbatim>\<open>parse_array\<close>: the length, the bound on the reference block (a
  \<^verbatim>\<open>size_t\<close> product, which wraps, added to a pointer) and \<^verbatim>\<open>PyList_New\<close>. It
  returns the number of iterations of the loop and the pointer to the first reference.
\<close>

definition array_head :: "bplist_parse_state \<Rightarrow> byte \<Rightarrow> int \<Rightarrow> int \<Rightarrow> error + (nat \<times> int)" where
  "array_head state type object object_end =
     (case unpack_length type (data_addr state) (data state) object of
        None \<Rightarrow> Inl UndefinedBehaviour
      | Some (slength, object') \<Rightarrow>
          if ptr_add (data_addr state) object' (int (unat (slength * p_ref_size state)))
               > object_end
          then Inl InvalidArrayLength
          else (case PyList_New (sint slength) of
                  Inl e \<Rightarrow> Inl e
                | Inr u \<Rightarrow> Inr (unat slength, object')))"

text \<open>
  The head of \<^verbatim>\<open>parse_dict\<close>: the length as a \<^verbatim>\<open>size_t\<close>, the bound on the two
  reference blocks, and the pointers \<^verbatim>\<open>key_object\<close> and \<^verbatim>\<open>val_object\<close>.
\<close>

definition dict_head ::
  "bplist_parse_state \<Rightarrow> byte \<Rightarrow> int \<Rightarrow> int \<Rightarrow> error + (nat \<times> int \<times> int)" where
  "dict_head state type object object_end =
     (case unpack_length type (data_addr state) (data state) object of
        None \<Rightarrow> Inl UndefinedBehaviour
      | Some (len, object') \<Rightarrow>
          if ptr_add (data_addr state) object' (int (unat (len * p_ref_size state * 2)))
               > object_end
          then Inl InvalidDictLength
          else Inr (unat len, object',
                    ptr_add (data_addr state) object' (int (unat (len * p_ref_size state)))))"

text \<open>
  The recursion. The argument \<open>depth\<close> bounds the nesting of \<^verbatim>\<open>parse_plist_object\<close>
  calls; \<open>None\<close> means that the bound was reached (in C the recursion goes on, until
  the stack is exhausted when the references are cyclic). \<open>parse_array_items\<close> and
  \<open>parse_dict_items\<close> are the \<^verbatim>\<open>for\<close> loops over the \<open>n\<close> remaining references.

  In \<^verbatim>\<open>parse_dict\<close> both the key and the value are parsed before either result is
  tested. So the value is parsed with the key's exception pending when the key has
  failed (the argument \<open>pending\<close>), and when both fail the error left in the
  interpreter is the value's.
\<close>

fun parse_plist_object ::
    "nat \<Rightarrow> bplist_parse_state \<Rightarrow> bool \<Rightarrow> 64 word \<Rightarrow> (error + pyobj) option"
  and parse_array_items ::
    "nat \<Rightarrow> bplist_parse_state \<Rightarrow> bool \<Rightarrow> nat \<Rightarrow> int \<Rightarrow> (error + pyobj list) option"
  and parse_dict_items ::
    "nat \<Rightarrow> bplist_parse_state \<Rightarrow> bool \<Rightarrow> nat \<Rightarrow> int \<Rightarrow> int \<Rightarrow> (pyobj \<times> pyobj) list \<Rightarrow>
       (error + pyobj) option"
where
  "parse_plist_object 0 state pending object_index = None"
| "parse_plist_object (Suc depth) state pending object_index =
     (case locate_object state object_index of
        Inl e \<Rightarrow> Some (Inl e)
      | Inr (object_type, object) \<Rightarrow>
          if object_type AND 0xF0 = 0xD0 then
            (case dict_head state object_type object (data_end state) of
               Inl e \<Rightarrow> Some (Inl e)
             | Inr (n, key_object, val_object) \<Rightarrow>
                 parse_dict_items depth state pending n key_object val_object [])
          else if object_type AND 0xF0 = 0xA0 then
            (case array_head state object_type object (data_end state) of
               Inl e \<Rightarrow> Some (Inl e)
             | Inr (n, object') \<Rightarrow>
                 map_option (map_sum id PyList)
                   (parse_array_items depth state pending n object'))
          else Some (parse_scalar state pending object_type object))"
| "parse_array_items depth state pending 0 object = Some (Inr [])"
| "parse_array_items depth state pending (Suc n) object =
     (case unpack_uint (p_ref_size state) (data state) object of
        None \<Rightarrow> Some (Inl UndefinedBehaviour)
      | Some list_obj_index \<Rightarrow>
          (case parse_plist_object depth state pending list_obj_index of
             None \<Rightarrow> None
           | Some (Inl e) \<Rightarrow> Some (Inl e)
           | Some (Inr list_obj) \<Rightarrow>
               map_option (map_sum id ((#) list_obj))
                 (parse_array_items depth state pending n
                    (ptr_add (data_addr state) object (int (unat (p_ref_size state)))))))"
| "parse_dict_items depth state pending 0 key_object val_object dict =
     Some (Inr (PyDict dict))"
| "parse_dict_items depth state pending (Suc n) key_object val_object dict =
     (case unpack_uint (p_ref_size state) (data state) key_object of
        None \<Rightarrow> Some (Inl UndefinedBehaviour)
      | Some key_obj_index \<Rightarrow>
      (case unpack_uint (p_ref_size state) (data state) val_object of
        None \<Rightarrow> Some (Inl UndefinedBehaviour)
      | Some val_obj_index \<Rightarrow>
      (case parse_plist_object depth state pending key_obj_index of
        None \<Rightarrow> None
      | Some key_res \<Rightarrow>
      (case parse_plist_object depth state (pending \<or> isl key_res) val_obj_index of
        None \<Rightarrow> None
      | Some (Inl e) \<Rightarrow> Some (Inl e)
      | Some (Inr val_obj) \<Rightarrow>
      (case key_res of
        Inl e \<Rightarrow> Some (Inl e)
      | Inr key_obj \<Rightarrow>
      (case PyDict_SetItem dict key_obj val_obj of
        Inl e \<Rightarrow> Some (Inl e)
      | Inr dict' \<Rightarrow>
          parse_dict_items depth state pending n
            (ptr_add (data_addr state) key_object (int (unat (p_ref_size state))))
            (ptr_add (data_addr state) val_object (int (unat (p_ref_size state))))
            dict'))))))"

subsection \<open>\<^verbatim>\<open>parse_plist\<close>\<close>

definition bplist_header :: "byte list" where
  "bplist_header = [0x62, 0x70, 0x6C, 0x69, 0x73, 0x74, 0x30, 0x30]"

definition check_int_width :: "64 word \<Rightarrow> bool" where
  "check_int_width width = (width = 1 \<or> width = 2 \<or> width = 4 \<or> width = 8)"

text \<open>
  The trailer is the last 32 bytes: six bytes of padding, \<^verbatim>\<open>offset_size\<close>,
  \<^verbatim>\<open>ref_size\<close>, and the three 64-bit fields. A \<^verbatim>\<open>bytes\<close> object is followed by a NUL
  byte, so \<^verbatim>\<open>strncmp\<close> on a buffer shorter than the header reports a difference.

  \<open>a\<close> is the address at which the interpreter holds the bytes of \<open>plist_data\<close>;
  \<open>buffer_at a plist_data\<close> says that the bytes and the NUL after them lie in the
  address space, above address 0. \<^verbatim>\<open>offset_table\<close> is \<^verbatim>\<open>data\<close> plus the 64-bit
  number of the trailer.
\<close>

definition buffer_at :: "int \<Rightarrow> byte list \<Rightarrow> bool" where
  "buffer_at a plist_data = (0 < a \<and> a + int (length plist_data) < 2 ^ 64)"

definition parse_plist :: "nat \<Rightarrow> int \<Rightarrow> byte list \<Rightarrow> (error + pyobj) option" where
  "parse_plist depth a plist_data =
     (if take 8 plist_data \<noteq> bplist_header then Some (Inl InvalidHeader)
      else if length plist_data < 8 + 32 then Some (Inl TooShort)
      else
        let trailer = drop (length plist_data - 32) plist_data;
            state = \<lparr> data_addr = a,
                      data = plist_data,
                      data_end = int (length plist_data) - 32,
                      p_ref_size = ucast (trailer ! 7),
                      p_offset_size = ucast (trailer ! 6),
                      object_count = SwapBigToHost64 (le_word (take 8 (drop 8 trailer))),
                      offset_table =
                        ptr_add a 0
                          (int (unat (SwapBigToHost64 (le_word (take 8 (drop 24 trailer)))))) \<rparr>
        in if \<not> check_int_width (p_offset_size state) then Some (Inl InvalidIntWidth)
           else if \<not> check_int_width (p_ref_size state) then Some (Inl InvalidIntWidth)
           else if offset_table state > data_end state then Some (Inl OffsetTableOutOfBounds)
           else parse_plist_object depth state False
                  (SwapBigToHost64 (le_word (take 8 (drop 16 trailer)))))"

subsection \<open>The generator's state\<close>

record bplist_trailer =
  offset_size :: byte
  ref_size :: byte
  num_objects :: "64 word"
  top_object :: "64 word"
  offset_table_offset :: "64 word"

text \<open>
  \<open>offsets\<close> holds the entries before \<^verbatim>\<open>current_offset\<close> and \<open>objects\<close> the bytes before
  \<^verbatim>\<open>current_object\<close>; the two capacities are \<^verbatim>\<open>offsets_end - offsets\<close> (in entries)
  and \<^verbatim>\<open>objects_end - objects\<close> (in bytes). \<open>exc\<close> is the interpreter's error
  indicator. \<open>fatal\<close> records the first event after which the C program has no
  defined continuation: a write past \<^verbatim>\<open>objects_end\<close>, \<^verbatim>\<open>__builtin_clzll(0)\<close>, or
  \<^verbatim>\<open>abort()\<close>.
\<close>

record bplist_generate_state =
  offsets :: "32 word list"
  offsets_cap :: nat
  objects :: "byte list"
  objects_cap :: nat
  trailer :: bplist_trailer
  exc :: "error option"
  fatal :: "error option"

definition set_fatal :: "error \<Rightarrow> bplist_generate_state \<Rightarrow> bplist_generate_state" where
  "set_fatal e st = (if fatal st = None then st\<lparr>fatal := Some e\<rparr> else st)"

definition PyErr_Set :: "error \<Rightarrow> bplist_generate_state \<Rightarrow> bplist_generate_state" where
  "PyErr_Set e st = st\<lparr>exc := Some e\<rparr>"

text \<open>Writing bytes at \<^verbatim>\<open>current_object\<close> and advancing it.\<close>

definition emit :: "byte list \<Rightarrow> bplist_generate_state \<Rightarrow> bplist_generate_state" where
  "emit bs st =
     (let st' = st\<lparr>objects := objects st @ bs\<rparr>
      in if length (objects st) + length bs > objects_cap st
         then set_fatal UndefinedBehaviour st' else st')"

text \<open>
  Writing bytes at \<^verbatim>\<open>objects + off\<close>, below \<^verbatim>\<open>current_object\<close>, without moving it.
\<close>

definition store_at :: "nat \<Rightarrow> byte list \<Rightarrow> bplist_generate_state \<Rightarrow> bplist_generate_state" where
  "store_at off bs st =
     (let st' = st\<lparr>objects := take (length (objects st))
                               (take off (objects st) @ bs @ drop (off + length bs) (objects st))\<rparr>
      in if off + length bs > objects_cap st
         then set_fatal UndefinedBehaviour st' else st')"

subsection \<open>Fixed-width integers: packing\<close>

text \<open>
  \<^verbatim>\<open>pack_int\<close>: the \<^verbatim>\<open>switch\<close> on the number of leading zero bits lists the cases
  0..31, 32..47, 48..55 and 56..64 (with \<^verbatim>\<open>default\<close>).
\<close>

definition pack_int :: "bplist_generate_state \<Rightarrow> 64 word \<Rightarrow> bplist_generate_state" where
  "pack_int state int_val =
     (let swappy = int_val;
          int_width = (if swappy = 0 then 64 else clzll swappy)
      in if int_width < 32 then
           emit (plist_type_int64 # le_bytes 8 (SwapHostToBig64 swappy)) state
         else if int_width < 48 then
           emit (plist_type_int32 # le_bytes 4 (SwapHostToBig32 (ucast swappy))) state
         else if int_width < 56 then
           emit (plist_type_int16 # le_bytes 2 (ucast (SwapHostToBig16 swappy) :: 16 word)) state
         else
           emit [plist_type_int8, ucast swappy] state)"

text \<open>\<^verbatim>\<open>pack_uint\<close>: the bytes stored; \<open>None\<close> is the \<^verbatim>\<open>default: abort()\<close>.\<close>

definition pack_uint :: "64 word \<Rightarrow> 64 word \<Rightarrow> byte list option" where
  "pack_uint int_width int_val =
     (if int_width = 1 then Some [ucast int_val]
      else if int_width = 2 then Some (le_bytes 2 (ucast (SwapBigToHost16 int_val) :: 16 word))
      else if int_width = 4 then Some (le_bytes 4 (SwapBigToHost32 (ucast int_val)))
      else if int_width = 8 then Some (le_bytes 8 (SwapBigToHost64 int_val))
      else None)"

text \<open>The integer value of an \<^verbatim>\<open>int\<close> or of an instance of a subclass of it.\<close>

fun long_value :: "pyobj \<Rightarrow> int" where
  "long_value (PyLong n) = n"
| "long_value (PyBool b) = (if b then 1 else 0)"
| "long_value (PyUid n) = n"
| "long_value x = 0"

text \<open>
  \<^verbatim>\<open>generate_int\<close> does not test the result of \<^verbatim>\<open>PyLong_AsSsize_t\<close>: out of range it
  packs the \<open>-1\<close> returned and leaves \<^verbatim>\<open>OverflowError\<close> in the error indicator.
\<close>

definition generate_int :: "bplist_generate_state \<Rightarrow> pyobj \<Rightarrow> int \<times> bplist_generate_state" where
  "generate_int state py_obj =
     (let n = long_value py_obj
      in if - (2 ^ 63) \<le> n \<and> n < 2 ^ 63 then (0, pack_int state (word_of_int n))
         else (0, pack_int (PyErr_Set (HostError OverflowError) state) (- 1)))"

text \<open>
  \<^verbatim>\<open>generate_uid\<close> applies \<^verbatim>\<open>__builtin_clzll\<close> without the test for 0 that
  \<^verbatim>\<open>pack_int\<close> has; for the value 0 the model records undefined behaviour and goes on
  as a host does whose instruction returns 64.
\<close>

definition generate_uid :: "bplist_generate_state \<Rightarrow> pyobj \<Rightarrow> int \<times> bplist_generate_state" where
  "generate_uid state0 py_obj =
     (let n = long_value py_obj;
          state1 = (if 0 \<le> n \<and> n < 2 ^ 64 then state0
                    else PyErr_Set (HostError OverflowError) state0);
          uid_val = (if 0 \<le> n \<and> n < 2 ^ 64 then word_of_int n else - 1) :: 64 word;
          state = (if uid_val = 0 then set_fatal UndefinedBehaviour state1 else state1);
          int_width = clzll uid_val
      in if int_width < 32 then
           (0, emit ((0x80 OR 0x7) # le_bytes 8 (SwapHostToBig64 uid_val)) state)
         else if int_width < 48 then
           (0, emit ((0x80 OR 0x3) # le_bytes 4 (SwapHostToBig32 (ucast uid_val))) state)
         else if int_width < 56 then
           (0, emit ((0x80 OR 0x1) # le_bytes 2 (ucast (SwapHostToBig16 uid_val) :: 16 word)) state)
         else
           (0, emit [0x80 OR 0x0, ucast uid_val] state))"

definition generate_float :: "bplist_generate_state \<Rightarrow> 64 word \<Rightarrow> int \<times> bplist_generate_state" where
  "generate_float state bits = (0, emit (0x23 # le_bytes 8 (SwapBigToHost64 bits)) state)"

text \<open>
  \<^verbatim>\<open>generate_date\<close> subtracts the epoch delta from the \<^verbatim>\<open>uint64_t\<close> member of the
  union, that is from the bit pattern read as an integer and converted to double, and
  converts the difference back to \<^verbatim>\<open>uint64_t\<close> for the swap. That conversion is
  undefined for a negative difference.
\<close>

definition generate_date ::
  "bplist_generate_state \<Rightarrow> 64 word \<Rightarrow> int \<times> bplist_generate_state" where
  "generate_date state bits =
     (case uint64_of_double (double_sub (double_of_uint64 bits) unix2apple_epoch_delta) of
        None \<Rightarrow> (0, emit (0x30 # replicate 8 0) (set_fatal UndefinedBehaviour state))
      | Some payload \<Rightarrow> (0, emit (0x30 # le_bytes 8 (SwapBigToHost64 payload)) state))"

definition pack_type_and_length ::
  "bplist_generate_state \<Rightarrow> byte \<Rightarrow> 64 word \<Rightarrow> bplist_generate_state" where
  "pack_type_and_length state type len =
     (if sint len < 0x0F then emit [type OR ucast len] state
      else pack_int (emit [type OR 0x0F] state) len)"

subsection \<open>Buffer growth\<close>

definition resize_plist_buffer :: "bplist_generate_state \<Rightarrow> nat \<Rightarrow> bplist_generate_state" where
  "resize_plist_buffer state new_length = state\<lparr>objects_cap := new_length\<rparr>"

text \<open>
  \<^verbatim>\<open>resize_plist_if_needed\<close> doubles the buffer once, whatever the space required.
  \<^verbatim>\<open>remaining_space\<close> is an unsigned difference.
\<close>

definition resize_plist_if_needed :: "bplist_generate_state \<Rightarrow> nat \<Rightarrow> bplist_generate_state" where
  "resize_plist_if_needed state required_space =
     (let remaining_space =
            nat ((int (objects_cap state) - int (length (objects state))) mod 2 ^ 64)
      in if remaining_space < required_space
         then resize_plist_buffer state (objects_cap state * 2)
         else state)"

definition grow_offset_table_buffer_if_needed ::
  "bplist_generate_state \<Rightarrow> bplist_generate_state" where
  "grow_offset_table_buffer_if_needed state =
     (let remaining_space =
            nat ((int (offsets_cap state) - int (length (offsets state))) mod 2 ^ 64)
      in if remaining_space \<ge> unat (offset_size (trailer state)) then state
         else state\<lparr>offsets_cap := offsets_cap state * 2\<rparr>)"

subsection \<open>Data and strings\<close>

definition pack_data ::
  "bplist_generate_state \<Rightarrow> byte list \<Rightarrow> byte \<Rightarrow> int \<times> bplist_generate_state" where
  "pack_data state0 bytes type =
     (let state1 = pack_type_and_length state0 type (of_nat (length bytes));
          state2 = resize_plist_if_needed state1 (length bytes)
      in (0, emit bytes state2))"

definition generate_data ::
  "bplist_generate_state \<Rightarrow> byte list \<Rightarrow> int \<times> bplist_generate_state" where
  "generate_data state bytes = pack_data state bytes 0x40"

text \<open>\<^verbatim>\<open>PyUnicode_AsASCIIString\<close> raises when a code point is above 127.\<close>

definition generate_ascii ::
  "bplist_generate_state \<Rightarrow> nat list \<Rightarrow> int \<times> bplist_generate_state" where
  "generate_ascii state cps =
     (if list_all (\<lambda>c. c < 0x80) cps then pack_data state (map of_nat cps) 0x50
      else (- 1, PyErr_Set (HostError UnicodeEncodeError) state))"

text \<open>
  The \<^verbatim>\<open>utf-16be\<close> encoder of \<^verbatim>\<open>codecs\<close>, strict: a code point above the basic plane
  becomes a surrogate pair, a lone surrogate is an error.
\<close>

fun utf16_encode :: "nat list \<Rightarrow> byte list option" where
  "utf16_encode [] = Some []"
| "utf16_encode (c # cs) =
     (if c < 0xD800 \<or> (0xE000 \<le> c \<and> c < 0x10000) then
        map_option (\<lambda>bs. of_nat (c div 256) # of_nat (c mod 256) # bs) (utf16_encode cs)
      else if 0x10000 \<le> c \<and> c < 0x110000 then
        (let hi = 0xD800 + (c - 0x10000) div 0x400;
             lo = 0xDC00 + (c - 0x10000) mod 0x400
         in map_option (\<lambda>bs. of_nat (hi div 256) # of_nat (hi mod 256) #
                              of_nat (lo div 256) # of_nat (lo mod 256) # bs)
              (utf16_encode cs))
      else None)"

definition generate_utf16 ::
  "bplist_generate_state \<Rightarrow> nat list \<Rightarrow> int \<times> bplist_generate_state" where
  "generate_utf16 state0 cps =
     (case utf16_encode cps of
        None \<Rightarrow> (- 1, PyErr_Set (HostError UnicodeEncodeError) state0)
      | Some bytes \<Rightarrow>
          let state1 = pack_type_and_length state0 0x60 (of_nat (length bytes) div 2);
              state2 = resize_plist_if_needed state1 (length bytes)
          in (0, emit bytes state2))"

text \<open>
  \<^verbatim>\<open>generate_string\<close> tests \<^verbatim>\<open>PyUnicode_KIND\<close>: a string is of the one-byte kind when
  all its code points are below 256.
\<close>

definition generate_string ::
  "bplist_generate_state \<Rightarrow> nat list \<Rightarrow> int \<times> bplist_generate_state" where
  "generate_string state cps =
     (if list_all (\<lambda>c. c < 0x100) cps then generate_ascii state cps
      else generate_utf16 state cps)"

subsection \<open>The object generator\<close>

text \<open>
  The type tests of \<^verbatim>\<open>generate_plist_object\<close>. \<^verbatim>\<open>PyLong_Check\<close> and
  \<^verbatim>\<open>PyFloat_Check\<close> accept instances of subclasses: \<^verbatim>\<open>bool\<close> and \<^verbatim>\<open>uid\<close> are
  subclasses of \<^verbatim>\<open>int\<close>, \<^verbatim>\<open>timestamp\<close> of \<^verbatim>\<open>float\<close>. The tests against
  \<^verbatim>\<open>uid_class\<close>, \<^verbatim>\<open>PyBool_Type\<close> and \<^verbatim>\<open>ts_class\<close> compare the exact type.
\<close>

fun is_uid :: "pyobj \<Rightarrow> bool" where
  "is_uid (PyUid n) = True"
| "is_uid x = False"

fun PyLong_Check :: "pyobj \<Rightarrow> bool" where
  "PyLong_Check (PyLong n) = True"
| "PyLong_Check (PyBool b) = True"
| "PyLong_Check (PyUid n) = True"
| "PyLong_Check x = False"

fun PyUnicode_Check :: "pyobj \<Rightarrow> bool" where
  "PyUnicode_Check (PyUnicode cps) = True"
| "PyUnicode_Check x = False"

fun PyBytes_Check :: "pyobj \<Rightarrow> bool" where
  "PyBytes_Check (PyBytes bs) = True"
| "PyBytes_Check x = False"

fun PyDict_Check :: "pyobj \<Rightarrow> bool" where
  "PyDict_Check (PyDict kvs) = True"
| "PyDict_Check x = False"

fun PyList_Check :: "pyobj \<Rightarrow> bool" where
  "PyList_Check (PyList xs) = True"
| "PyList_Check x = False"

fun is_bool :: "pyobj \<Rightarrow> bool" where
  "is_bool (PyBool b) = True"
| "is_bool x = False"

fun is_timestamp :: "pyobj \<Rightarrow> bool" where
  "is_timestamp (PyTimestamp w) = True"
| "is_timestamp x = False"

fun PyFloat_Check :: "pyobj \<Rightarrow> bool" where
  "PyFloat_Check (PyFloat w) = True"
| "PyFloat_Check (PyTimestamp w) = True"
| "PyFloat_Check x = False"

fun unicode_points :: "pyobj \<Rightarrow> nat list" where
  "unicode_points (PyUnicode cps) = cps"
| "unicode_points x = []"

fun bytes_content :: "pyobj \<Rightarrow> byte list" where
  "bytes_content (PyBytes bs) = bs"
| "bytes_content x = []"

fun list_items :: "pyobj \<Rightarrow> pyobj list" where
  "list_items (PyList xs) = xs"
| "list_items x = []"

fun dict_items :: "pyobj \<Rightarrow> (pyobj \<times> pyobj) list" where
  "dict_items (PyDict kvs) = kvs"
| "dict_items x = []"

fun float_bits :: "pyobj \<Rightarrow> 64 word" where
  "float_bits (PyFloat w) = w"
| "float_bits (PyTimestamp w) = w"
| "float_bits x = 0"

text \<open>
  The head of \<^verbatim>\<open>generate_plist_object\<close>: the offset of the new object is recorded
  (as a \<^verbatim>\<open>uint32_t\<close>), \<^verbatim>\<open>num_objects\<close> is incremented and compared with
  \<^verbatim>\<open>(1 << 16) - 1\<close>, and 32 bytes of scratch space are asked for.
\<close>

definition begin_object :: "bplist_generate_state \<Rightarrow> int \<times> bplist_generate_state" where
  "begin_object state0 =
     (let state1 = grow_offset_table_buffer_if_needed state0;
          state2 = state1\<lparr>offsets := offsets state1 @ [of_nat (length (objects state1))]\<rparr>;
          state3 = state2\<lparr>trailer :=
                     (trailer state2)\<lparr>num_objects := num_objects (trailer state2) + 1\<rparr>\<rparr>
      in if num_objects (trailer state3) = 0xFFFF then (1, state3)
         else (0, resize_plist_if_needed state3 32))"

text \<open>
  The branches of \<^verbatim>\<open>generate_plist_object\<close> after the \<^verbatim>\<open>PyList_Check\<close> test: the
  exact-type test for \<^verbatim>\<open>bool\<close>, the timestamp, the float, and the final error.
\<close>

definition generate_other ::
  "bplist_generate_state \<Rightarrow> pyobj \<Rightarrow> int \<times> bplist_generate_state" where
  "generate_other state py_obj =
     (if is_bool py_obj then
        (0, emit [if py_obj = PyBool True then 0x09 else 0x08] state)
      else if is_timestamp py_obj then generate_date state (float_bits py_obj)
      else if PyFloat_Check py_obj then generate_float state (float_bits py_obj)
      else (- 1, PyErr_Set UnsupportedType state))"

text \<open>
  The heads of \<^verbatim>\<open>generate_array\<close> and \<^verbatim>\<open>generate_dict\<close>: marker and length, one
  doubling of the buffer if the reference block does not fit, and the reference block
  skipped by advancing \<^verbatim>\<open>current_object\<close>. The skipped bytes are uninitialised in C
  (zero here) until \<^verbatim>\<open>pack_uint\<close> fills them. The offsets of the block are returned.
\<close>

definition array_begin :: "bplist_generate_state \<Rightarrow> nat \<Rightarrow> nat \<times> bplist_generate_state" where
  "array_begin state0 n =
     (let state1 = pack_type_and_length state0 0xA0 (of_nat n);
          ref_length = unat (ref_size (trailer state1)) * n;
          state2 = resize_plist_if_needed state1 ref_length
      in (length (objects state2), emit (replicate ref_length 0) state2))"

definition dict_begin ::
  "bplist_generate_state \<Rightarrow> nat \<Rightarrow> nat \<times> nat \<times> bplist_generate_state" where
  "dict_begin state0 n =
     (let state1 = pack_type_and_length state0 0xD0 (of_nat n);
          ref_length = unat (ref_size (trailer state1)) * n;
          state2 = resize_plist_if_needed state1 (ref_length * 2);
          key_ref_offset = length (objects state2)
      in (key_ref_offset, key_ref_offset + ref_length,
          emit (replicate (ref_length * 2) 0) state2))"

text \<open>
  \<^verbatim>\<open>pack_uint(ref_size, state->objects + off, state->trailer.num_objects)\<close>: the index
  the next object will get, written into a reference slot.
\<close>

definition put_ref :: "bplist_generate_state \<Rightarrow> nat \<Rightarrow> bplist_generate_state" where
  "put_ref state off =
     (case pack_uint (ucast (ref_size (trailer state))) (num_objects (trailer state)) of
        None \<Rightarrow> set_fatal ProcessAbort state
      | Some bs \<Rightarrow> store_at off bs state)"

text \<open>
  \<^verbatim>\<open>generate_plist_object\<close> with the loops of \<^verbatim>\<open>generate_array\<close> and
  \<^verbatim>\<open>generate_dict\<close>. The tests are in the order of the source: \<^verbatim>\<open>uid_class\<close>,
  \<^verbatim>\<open>PyLong_Check\<close>, \<^verbatim>\<open>PyUnicode_Check\<close>, \<^verbatim>\<open>PyBytes_Check\<close>, \<^verbatim>\<open>PyDict_Check\<close>,
  \<^verbatim>\<open>PyList_Check\<close>, then those of \<open>generate_other\<close>. The result is the C return
  value (0, 1 or -1) and the state.
\<close>

function generate_plist_object ::
    "bplist_generate_state \<Rightarrow> pyobj \<Rightarrow> int \<times> bplist_generate_state"
  and generate_array_items ::
    "bplist_generate_state \<Rightarrow> nat \<Rightarrow> pyobj list \<Rightarrow> int \<times> bplist_generate_state"
  and generate_dict_items ::
    "bplist_generate_state \<Rightarrow> nat \<Rightarrow> nat \<Rightarrow> (pyobj \<times> pyobj) list \<Rightarrow>
       int \<times> bplist_generate_state"
where
  "generate_plist_object state0 py_obj =
     (case begin_object state0 of
        (rc, state) \<Rightarrow>
          if rc \<noteq> 0 then (rc, state)
          else if is_uid py_obj then generate_uid state py_obj
          else if PyLong_Check py_obj then generate_int state py_obj
          else if PyUnicode_Check py_obj then generate_string state (unicode_points py_obj)
          else if PyBytes_Check py_obj then generate_data state (bytes_content py_obj)
          else if PyDict_Check py_obj then
            (case dict_begin state (length (dict_items py_obj)) of
               (key_ref_offset, val_ref_offset, state') \<Rightarrow>
                 generate_dict_items state' key_ref_offset val_ref_offset (dict_items py_obj))
          else if PyList_Check py_obj then
            (case array_begin state (length (list_items py_obj)) of
               (current_object_offset, state') \<Rightarrow>
                 generate_array_items state' current_object_offset (list_items py_obj))
          else generate_other state py_obj)"
| "generate_array_items state off [] = (0, state)"
| "generate_array_items state off (list_obj # rest) =
     (case generate_plist_object (put_ref state off) list_obj of
        (result, state') \<Rightarrow>
          if result \<noteq> 0 then (result, state')
          else generate_array_items state' (off + unat (ref_size (trailer state))) rest)"
| "generate_dict_items state key_ref_offset val_ref_offset [] = (0, state)"
| "generate_dict_items state key_ref_offset val_ref_offset ((key, val) # rest) =
     (case generate_plist_object (put_ref state key_ref_offset) key of
        (key_result, state1) \<Rightarrow>
          if key_result \<noteq> 0 then (key_result, state1)
          else
            (case generate_plist_object (put_ref state1 val_ref_offset) val of
               (val_result, state2) \<Rightarrow>
                 if val_result \<noteq> 0 then (val_result, state2)
                 else generate_dict_items state2
                        (key_ref_offset + unat (ref_size (trailer state)))
                        (val_ref_offset + unat (ref_size (trailer state))) rest))"
  by pat_completeness auto

termination
  by (relation "measure (\<lambda>x. case x of
          Inl (st, obj) \<Rightarrow> size obj
        | Inr (Inl (st, off, xs)) \<Rightarrow> size_list size xs
        | Inr (Inr (st, k, v, kvs)) \<Rightarrow> size_list (size_prod size size) kvs)")
     (auto elim!: PyList_Check.elims PyDict_Check.elims)

subsection \<open>The offset table, the trailer, and \<^verbatim>\<open>generate_plist\<close>\<close>

text \<open>
  The 32 bytes of \<^verbatim>\<open>bplist_trailer\<close> in memory. The padding is zero (the struct is
  initialised with designated initialisers); \<^verbatim>\<open>num_objects\<close> and
  \<^verbatim>\<open>offset_table_offset\<close> hold the already swapped values when it is copied, and
  \<^verbatim>\<open>top_object\<close> is stored as it is.
\<close>

definition trailer_bytes :: "bplist_trailer \<Rightarrow> byte list" where
  "trailer_bytes t =
     [0, 0, 0, 0, 0, 0] @ [offset_size t, ref_size t] @
     le_bytes 8 (num_objects t) @ le_bytes 8 (top_object t) @
     le_bytes 8 (offset_table_offset t)"

text \<open>
  The loop that packs the recorded offsets, \<^verbatim>\<open>num_objects\<close> of them, with the width
  chosen. The generator records one offset per object, so the entries exist; were
  there fewer, the loop would read past what was written.
\<close>

fun pack_offsets :: "64 word \<Rightarrow> 32 word list \<Rightarrow> bplist_generate_state \<Rightarrow> bplist_generate_state" where
  "pack_offsets w [] state = state"
| "pack_offsets w (offset # rest) state =
     (case pack_uint w (ucast offset) of
        None \<Rightarrow> set_fatal ProcessAbort state
      | Some bs \<Rightarrow> pack_offsets w rest (emit bs state))"

definition generate_plist_offset_table_and_trailer ::
  "bplist_generate_state \<Rightarrow> int \<times> bplist_generate_state" where
  "generate_plist_offset_table_and_trailer state0 =
     (let objects_length = length (objects state0)
      in if objects_length > 0xFFFFFFFF
         then (- 1, PyErr_Set ObjectSpaceOverflow state0)
         else
           let size = (if objects_length \<le> 0xFF then 1
                       else if objects_length \<le> 0xFFFF then 2 else 4);
               state1 = state0\<lparr>trailer := (trailer state0)\<lparr>offset_size := size\<rparr>\<rparr>;
               n = num_objects (trailer state1);
               offset_table_length = unat n * unat size;
               final_size = objects_length + offset_table_length + 32;
               state2 = resize_plist_buffer state1 final_size;
               state3 = state2\<lparr>trailer :=
                          (trailer state2)\<lparr>offset_table_offset := of_nat objects_length\<rparr>\<rparr>;
               state4 = (if unat n \<le> length (offsets state3) then state3
                         else set_fatal UndefinedBehaviour state3);
               state5 = pack_offsets (ucast size) (take (unat n) (offsets state4)) state4;
               state6 = state5\<lparr>trailer :=
                          (trailer state5)\<lparr>num_objects := SwapHostToBig64 n,
                                            offset_table_offset :=
                                              SwapHostToBig64
                                                (offset_table_offset (trailer state5))\<rparr>\<rparr>
           in (0, emit (trailer_bytes (trailer state6)) state6))"

text \<open>
  \<^verbatim>\<open>generate_plist\<close>. The offset table starts with room for 4096 / 4 entries and the
  object buffer with 4096 bytes, of which the header takes eight. When
  \<^verbatim>\<open>generate_plist_object\<close> returns 1 the function calls \<^verbatim>\<open>abort()\<close>; when it
  returns -1 the result is \<^verbatim>\<open>NULL\<close> and the pending exception is raised. A result
  returned while an exception is pending makes the interpreter raise
  \<^verbatim>\<open>SystemError\<close>.
\<close>

definition initial_state :: bplist_generate_state where
  "initial_state =
     \<lparr> offsets = [], offsets_cap = 4096 div 4,
       objects = bplist_header, objects_cap = 4096,
       trailer = \<lparr> offset_size = 4, ref_size = 2, num_objects = 0, top_object = 0,
                   offset_table_offset = 0 \<rparr>,
       exc = None, fatal = None \<rparr>"

definition raised :: "bplist_generate_state \<Rightarrow> error" where
  "raised state = (case exc state of Some e \<Rightarrow> e | None \<Rightarrow> HostError SystemError)"

definition generate_plist :: "pyobj \<Rightarrow> error + byte list" where
  "generate_plist py_obj =
     (case generate_plist_object initial_state py_obj of
        (object_generation, state) \<Rightarrow>
          (case fatal state of
             Some e \<Rightarrow> Inl e
           | None \<Rightarrow>
               if object_generation \<noteq> 0 then
                 (if object_generation = 1 then Inl ProcessAbort else Inl (raised state))
               else
                 (case generate_plist_offset_table_and_trailer state of
                    (rc, state') \<Rightarrow>
                      (case fatal state' of
                         Some e \<Rightarrow> Inl e
                       | None \<Rightarrow>
                           if rc \<noteq> 0 then Inl (raised state')
                           else if exc state' \<noteq> None then Inl (HostError SystemError)
                           else Inr (objects state')))))"

subsection \<open>Sample buffers\<close>

text \<open>
  A file whose offset table (one entry, at offset 8) comes before its only object, at
  offset 9: a marker followed by two payload bytes that end exactly where the trailer
  starts; and the same file with one more byte between the payload and the trailer.
  The trailer gives \<^verbatim>\<open>offset_size = 1\<close>, \<^verbatim>\<open>ref_size = 1\<close>, one object, top object 0,
  offset table at 8.
\<close>

definition file_exact :: "byte \<Rightarrow> byte list" where
  "file_exact marker = bplist_header @ [0x09] @ [marker, 0x00, 0x41] @
     [0,0,0,0,0,0, 1, 1,  0,0,0,0,0,0,0,1,  0,0,0,0,0,0,0,0,  0,0,0,0,0,0,0,8]"

definition file_slack :: "byte \<Rightarrow> byte list" where
  "file_slack marker = bplist_header @ [0x09] @ [marker, 0x00, 0x41, 0x00] @
     [0,0,0,0,0,0, 1, 1,  0,0,0,0,0,0,0,1,  0,0,0,0,0,0,0,0,  0,0,0,0,0,0,0,8]"

subsection \<open>Big-endian numbers, for reference\<close>

text \<open>
  The number a sequence of bytes denotes when read most significant byte first. The
  codec does not use this function; the properties below compare its reads with it.
\<close>

fun be_nat_from :: "nat \<Rightarrow> byte list \<Rightarrow> nat" where
  "be_nat_from a [] = a"
| "be_nat_from a (b # bs) = be_nat_from (256 * a + unat b) bs"

definition be_nat :: "byte list \<Rightarrow> nat" where
  "be_nat bs = be_nat_from 0 bs"

text \<open>Least significant byte first.\<close>

fun le_nat :: "byte list \<Rightarrow> nat" where
  "le_nat [] = 0"
| "le_nat (b # bs) = unat b + 256 * le_nat bs"

text \<open>
  A file whose only object, at offset 8, is a marker followed by the bytes 01 .. 08; the
  offset table (one entry) is at 17.
\<close>

definition file_uid :: "byte \<Rightarrow> byte list" where
  "file_uid marker = bplist_header @ [marker, 0x01, 0x02, 0x03, 0x04, 0x05, 0x06, 0x07, 0x08] @ [0x08] @
     [0,0,0,0,0,0, 1, 1,  0,0,0,0,0,0,0,1,  0,0,0,0,0,0,0,0,  0,0,0,0,0,0,0,17]"

text \<open>
  Files for the range checks. Each trailer gives \<^verbatim>\<open>offset_size = 1\<close>,
  \<^verbatim>\<open>ref_size = 1\<close> and top object 0.

  \<open>file_offset entry\<close>: the object region is the byte 08 at offset 8, the offset
  table (at 9) is the one byte \<open>entry\<close>, the trailer starts at 10.

  \<open>file_header_offset\<close>: the object region is seven UTF-16 units 0041 and a spare
  byte; the offset table (at 23) is the one entry 3, an offset inside the header,
  where the byte is 69.

  \<open>file_ref r count\<close>: an array at offset 8 with the one reference \<open>r\<close>, the object
  08 at offset 10, an offset table (at 11) with the two entries 8 and 10, and a trailer
  (at 13) that declares \<open>count\<close> objects.

  \<open>file_dict\<close>: a dict at offset 8 with key reference 1 and value reference 2, the
  string "a" at 11, the object 09 at 13, the offset table (8, 11, 13) at 14.
\<close>

definition file_offset :: "byte \<Rightarrow> byte list" where
  "file_offset entry = bplist_header @ [0x08] @ [entry] @
     [0,0,0,0,0,0, 1, 1,  0,0,0,0,0,0,0,1,  0,0,0,0,0,0,0,0,  0,0,0,0,0,0,0,9]"

definition file_header_offset :: "byte list" where
  "file_header_offset = bplist_header @
     [0x00, 0x41, 0x00, 0x41, 0x00, 0x41, 0x00, 0x41, 0x00, 0x41, 0x00, 0x41, 0x00, 0x41, 0x00] @
     [0x03] @
     [0,0,0,0,0,0, 1, 1,  0,0,0,0,0,0,0,1,  0,0,0,0,0,0,0,0,  0,0,0,0,0,0,0,23]"

definition file_dict :: "byte list" where
  "file_dict = bplist_header @ [0xD1, 0x01, 0x02, 0x51, 0x61, 0x09] @ [0x08, 0x0B, 0x0D] @
     [0,0,0,0,0,0, 1, 1,  0,0,0,0,0,0,0,3,  0,0,0,0,0,0,0,0,  0,0,0,0,0,0,0,14]"

definition file_ref :: "byte \<Rightarrow> byte \<Rightarrow> byte list" where
  "file_ref r count = bplist_header @ [0xA1, r, 0x08] @ [0x08, 0x0A] @
     [0,0,0,0,0,0, 1, 1,  0,0,0,0,0,0,0,count,  0,0,0,0,0,0,0,0,  0,0,0,0,0,0,0,11]"

text \<open>
  \<open>file_wrap\<close>: an array at offset 8 with the one 8-byte reference 2^64 - 1, the
  object 08 at offset 17, the byte 11 (17) at offset 18, an offset table (at 19) with
  the one entry 8, and a trailer (at 20) with \<^verbatim>\<open>offset_size = 1\<close>, \<^verbatim>\<open>ref_size = 8\<close>.
\<close>

definition file_wrap :: "byte list" where
  "file_wrap = bplist_header @
     [0xA1, 0xFF, 0xFF, 0xFF, 0xFF, 0xFF, 0xFF, 0xFF, 0xFF, 0x08, 0x11] @ [0x08] @
     [0,0,0,0,0,0, 1, 8,  0,0,0,0,0,0,0,1,  0,0,0,0,0,0,0,0,  0,0,0,0,0,0,0,19]"

text \<open>
  \<open>file_bad_key\<close>: a dict at offset 8 with key reference 5 and value reference 1, the
  uid 7 at offset 11, an offset table (at 13) with the two entries 8 and 11.
\<close>

definition file_bad_key :: "byte list" where
  "file_bad_key = bplist_header @ [0xD1, 0x05, 0x01, 0x80, 0x07] @ [0x08, 0x0B] @
     [0,0,0,0,0,0, 1, 1,  0,0,0,0,0,0,0,2,  0,0,0,0,0,0,0,0,  0,0,0,0,0,0,0,13]"

text \<open>An address for the sample buffers.\<close>

definition buffer_addr :: int where
  "buffer_addr = 0x7F3A5C001020"

text \<open>The test \<^verbatim>\<open>parse_plist_object\<close> applies to the pointer \<^verbatim>\<open>object_ref\<close>.\<close>

definition object_ref_ok :: "bplist_parse_state \<Rightarrow> 64 word \<Rightarrow> bool" where
  "object_ref_ok state object_index =
     (0 < object_ref_of state object_index \<and> object_ref_of state object_index < data_end state)"

section \<open>Properties\<close>

subsection \<open>Integers in memory\<close>

lemma length_le_bytes [simp]: "length (le_bytes n w) = n"
  by (induction n arbitrary: w) auto

lemma nth_le_bytes: "k < n \<Longrightarrow> le_bytes n w ! k = ucast (drop_bit (8 * k) w)"
proof (induction n arbitrary: w k)
  case 0
  then show ?case by simp
next
  case (Suc n)
  show ?case
  proof (cases k)
    case 0
    then show ?thesis by simp
  next
    case (Suc j)
    with Suc.prems have "j < n" by simp
    from Suc.IH [OF this] show ?thesis
      using Suc by (simp add: drop_bit_drop_bit add.commute)
  qed
qed

lemma bit_le_word:
  "bit (le_word bs :: 'a::len word) i \<longleftrightarrow>
     i < LENGTH('a) \<and> i div 8 < length bs \<and> bit (bs ! (i div 8)) (i mod 8)"
proof (induction bs arbitrary: i)
  case Nil
  then show ?case by simp
next
  case (Cons b bs)
  show ?case
  proof (cases "i < 8")
    case True
    then show ?thesis by (auto simp: bit_or_iff bit_ucast_iff bit_push_bit_iff)
  next
    case False
    then have d: "i div 8 = Suc ((i - 8) div 8)" and m: "i mod 8 = (i - 8) mod 8"
      by (simp_all add: le_div_geq le_mod_geq)
    from False have nb: "\<not> bit b i"
      by (auto dest: bit_imp_le_length)
    show ?thesis using False nb
      by (auto simp: bit_or_iff bit_ucast_iff bit_push_bit_iff Cons.IH d m)
  qed
qed

lemma le_bytes_le_word:
  assumes "8 * length bs \<le> LENGTH('a)"
  shows "le_bytes (length bs) (le_word bs :: 'a::len word) = bs"
proof (rule nth_equalityI)
  show "length (le_bytes (length bs) (le_word bs :: 'a word)) = length bs" by simp
next
  fix k assume "k < length (le_bytes (length bs) (le_word bs :: 'a word))"
  then have k: "k < length bs" by simp
  have "(ucast (drop_bit (8 * k) (le_word bs :: 'a word)) :: byte) = bs ! k"
  proof (rule bit_eqI)
    fix j assume "possible_bit TYPE(byte) j"
    then have j: "j < 8" by (simp add: possible_bit_def)
    then have "(8 * k + j) div 8 = k" "(8 * k + j) mod 8 = j" by simp_all
    moreover have "8 * k + j < LENGTH('a)" using k j assms by simp
    ultimately show "bit (ucast (drop_bit (8 * k) (le_word bs :: 'a word)) :: byte) j = bit (bs ! k) j"
      using j k by (simp add: bit_ucast_iff bit_drop_bit_eq bit_le_word)
  qed
  then show "le_bytes (length bs) (le_word bs :: 'a word) ! k = bs ! k"
    using k by (simp add: nth_le_bytes)
qed

lemma le_word_le_bytes:
  assumes "LENGTH('a) \<le> 8 * n"
  shows "le_word (le_bytes n w) = (w :: 'a::len word)"
proof (rule bit_eqI)
  fix i assume "possible_bit TYPE('a word) i"
  then have i: "i < LENGTH('a)" by (simp add: possible_bit_def)
  then have d: "i div 8 < n" using assms by (simp add: less_mult_imp_div_less mult.commute)
  have m: "i mod 8 < 8" by simp
  have e: "8 * (i div 8) + i mod 8 = i" by simp
  show "bit (le_word (le_bytes n w) :: 'a word) i = bit w i"
    using i d m by (simp add: bit_le_word nth_le_bytes bit_ucast_iff bit_drop_bit_eq e)
qed

text \<open>A swapped integer is stored most significant byte first.\<close>

lemma le_bytes_8: "le_bytes 8 w = [ucast w, ucast (drop_bit 8 w), ucast (drop_bit 16 w), ucast (drop_bit 24 w),
   ucast (drop_bit 32 w), ucast (drop_bit 40 w), ucast (drop_bit 48 w), ucast (drop_bit 56 w)]"
  by (simp add: eval_nat_numeral drop_bit_drop_bit)
lemma le_bytes_4: "le_bytes 4 w = [ucast w, ucast (drop_bit 8 w), ucast (drop_bit 16 w), ucast (drop_bit 24 w)]"
  by (simp add: eval_nat_numeral drop_bit_drop_bit)
lemma le_bytes_2: "le_bytes 2 w = [ucast w, ucast (drop_bit 8 w)]"
  by (simp add: eval_nat_numeral drop_bit_drop_bit)

lemma store_swap64: "le_bytes 8 (SwapBigToHost64 w) = rev (le_bytes 8 w)"
  unfolding SwapBigToHost64_def
  using le_bytes_le_word [of "rev (le_bytes 8 w)", where ?'a = 64] by simp

lemma store_swap32: "le_bytes 4 (SwapBigToHost32 w) = rev (le_bytes 4 w)"
  unfolding SwapBigToHost32_def
  using le_bytes_le_word [of "rev (le_bytes 4 w)", where ?'a = 32] by simp

lemma be_bytes_8:
  "le_bytes 8 (SwapBigToHost64 w) =
     [ucast (drop_bit 56 w), ucast (drop_bit 48 w), ucast (drop_bit 40 w), ucast (drop_bit 32 w),
      ucast (drop_bit 24 w), ucast (drop_bit 16 w), ucast (drop_bit 8 w), ucast w]"
  unfolding store_swap64 by (simp add: le_bytes_8)

lemma be_bytes_4:
  "le_bytes 4 (SwapBigToHost32 w) =
     [ucast (drop_bit 24 w), ucast (drop_bit 16 w), ucast (drop_bit 8 w), ucast w]"
  unfolding store_swap32 by (simp add: le_bytes_4)

lemma ucast_drop_ucast:
  "k + 8 \<le> LENGTH('b) \<Longrightarrow> LENGTH('b) \<le> LENGTH('a) \<Longrightarrow>
   (ucast (drop_bit k (ucast (w :: 'a::len word) :: 'b::len word)) :: byte) = ucast (drop_bit k w)"
  by (rule bit_eqI) (auto simp: bit_ucast_iff bit_drop_bit_eq)


lemma mask_FF: "(0xFF :: 'a::len word) = mask 8"
  by (simp add: mask_eq_exp_minus_1)

lemma mask_FF00: "(0xFF00 :: 'a::len word) = push_bit 8 (mask 8)"
  by (simp add: mask_eq_exp_minus_1 push_bit_eq_mult)

lemma bit_SwapBigToHost16:
  "bit (SwapBigToHost16 (x :: 'a::len word)) i \<longleftrightarrow>
     i < LENGTH('a) \<and> (if i < 8 then bit x (8 + i) else i < 16 \<and> bit x (i - 8))"
  unfolding SwapBigToHost16_def mask_FF mask_FF00
  by (auto simp: bit_or_iff bit_and_iff bit_push_bit_iff bit_drop_bit_eq bit_mask_iff
      dest: bit_imp_le_length)

lemma ucast_ucast_byte:
  "8 \<le> LENGTH('b) \<Longrightarrow> LENGTH('b) \<le> LENGTH('a) \<Longrightarrow>
   (ucast (ucast (w :: 'a::len word) :: 'b::len word) :: byte) = ucast w"
  by (rule bit_eqI) (auto simp: bit_ucast_iff)

lemma store_swap16:
  "le_bytes 2 (ucast (SwapBigToHost16 (w :: 64 word)) :: 16 word) = [ucast (drop_bit 8 w), ucast w]"
proof -
  have a: "(ucast (ucast (SwapBigToHost16 w) :: 16 word) :: byte) = ucast (drop_bit 8 w)"
    by (rule bit_eqI) (auto simp: bit_ucast_iff bit_SwapBigToHost16 bit_drop_bit_eq)
  have b: "(ucast (drop_bit 8 (ucast (SwapBigToHost16 w) :: 16 word)) :: byte) = ucast w"
    by (rule bit_eqI) (auto simp: bit_ucast_iff bit_SwapBigToHost16 bit_drop_bit_eq)
  show ?thesis by (simp add: le_bytes_2 a b)
qed


lemma clz_from_ge:
  "k \<le> n \<Longrightarrow> (k \<le> clz_from n x) = (\<forall>i. n - k \<le> i \<and> i < n \<longrightarrow> \<not> bit x i)"
proof (induction n arbitrary: k)
  case 0
  then show ?case by simp
next
  case (Suc n)
  show ?case
  proof (cases "bit x n")
    case True
    show ?thesis
    proof (cases k)
      case 0
      then show ?thesis by auto
    next
      case (Suc j)
      have "n - j \<le> n \<and> n < Suc n \<and> bit x n" using True by simp
      then have "\<exists>i. n - j \<le> i \<and> i < Suc n \<and> bit x i" by (rule exI)
      then show ?thesis using True Suc by simp
    qed
  next
    case False
    show ?thesis
    proof (cases k)
      case 0
      then show ?thesis by auto
    next
      case (Suc j)
      with Suc.prems have "j \<le> n" by simp
      from Suc.IH [OF this] False Suc show ?thesis
        by (auto simp: less_Suc_eq)
    qed
  qed
qed

lemma clzll_less:
  assumes "0 < k" "k \<le> 64"
  shows "clzll x < k \<longleftrightarrow> drop_bit (64 - k) x \<noteq> 0"
proof -
  have "(k \<le> clzll x) = (\<forall>i. 64 - k \<le> i \<and> i < 64 \<longrightarrow> \<not> bit x i)"
    unfolding clzll_def using assms by (intro clz_from_ge) simp
  also have "\<dots> = (drop_bit (64 - k) x = 0)"
  proof
    assume a: "\<forall>i. 64 - k \<le> i \<and> i < 64 \<longrightarrow> \<not> bit x i"
    show "drop_bit (64 - k) x = 0"
    proof (rule bit_eqI)
      fix j
      have "\<not> bit x (64 - k + j)"
      proof (cases "64 - k + j < 64")
        case True
        with a show ?thesis by simp
      next
        case False
        then show ?thesis by (auto dest: bit_imp_le_length)
      qed
      then show "bit (drop_bit (64 - k) x) j = bit (0 :: 64 word) j"
        by (simp add: bit_drop_bit_eq)
    qed
  next
    assume z: "drop_bit (64 - k) x = 0"
    show "\<forall>i. 64 - k \<le> i \<and> i < 64 \<longrightarrow> \<not> bit x i"
    proof (intro allI impI)
      fix i assume i: "64 - k \<le> i \<and> i < 64"
      have "bit (drop_bit (64 - k) x) (i - (64 - k)) = bit x i"
        using i by (simp add: bit_drop_bit_eq)
      with z show "\<not> bit x i" by simp
    qed
  qed
  finally show ?thesis by auto
qed

lemma drop_bit_eq_0_unat: "drop_bit n (x :: 'a::len word) = 0 \<longleftrightarrow> unat x < 2 ^ n"
proof -
  have "drop_bit n x = 0 \<longleftrightarrow> unat (drop_bit n x) = 0"
    by (simp add: unat_eq_0)
  also have "\<dots> \<longleftrightarrow> unat x div 2 ^ n = 0"
    unfolding unat_drop_bit_eq by (simp only: drop_bit_eq_div)
  also have "\<dots> \<longleftrightarrow> unat x < 2 ^ n"
    by (simp add: div_eq_0_iff)
  finally show ?thesis .
qed

lemma objects_emit [simp]: "objects (emit bs st) = objects st @ bs"
  by (simp add: emit_def set_fatal_def Let_def)

subsection \<open>\<^verbatim>\<open>pack_int\<close>\<close>

text \<open>
  C5. \<^verbatim>\<open>pack_int\<close> writes, after the bytes already in the buffer: marker \<open>0x13\<close> and
  the eight bytes of the value, most significant first, when a bit of the upper 32 bits
  of the value read as \<^verbatim>\<open>uint64_t\<close> is set, which is the case for every negative value;
  otherwise marker \<open>0x10\<close> and one byte for 0..255, marker \<open>0x11\<close> and two bytes for
  256..65535, marker \<open>0x12\<close> and four bytes for 65536..2^32-1.
\<close>

theorem pack_int_encoding:
  "(sint v < 0 \<longrightarrow> drop_bit 32 v \<noteq> 0) \<and>
   objects (pack_int st v) = objects st @
     (if drop_bit 32 v \<noteq> 0 then
        [0x13, ucast (drop_bit 56 v), ucast (drop_bit 48 v), ucast (drop_bit 40 v),
         ucast (drop_bit 32 v), ucast (drop_bit 24 v), ucast (drop_bit 16 v),
         ucast (drop_bit 8 v), ucast v]
      else if unat v \<le> 255 then [0x10, ucast v]
      else if unat v \<le> 65535 then [0x11, ucast (drop_bit 8 v), ucast v]
      else [0x12, ucast (drop_bit 24 v), ucast (drop_bit 16 v), ucast (drop_bit 8 v), ucast v])"
proof
  show "sint v < 0 \<longrightarrow> drop_bit 32 v \<noteq> 0"
  proof
    assume "sint v < 0"
    then have "bit v 63" using bit_last_iff [of v] by simp
    then have "bit (drop_bit 32 v) 31" by (simp add: bit_drop_bit_eq)
    then show "drop_bit 32 v \<noteq> 0" by auto
  qed
next
  have c32: "clzll v < 32 \<longleftrightarrow> drop_bit 32 v \<noteq> 0" using clzll_less [of 32 v] by simp
  have c48: "clzll v < 48 \<longleftrightarrow> \<not> unat v < 2 ^ 16"
    using clzll_less [of 48 v] by (simp add: drop_bit_eq_0_unat)
  have c56: "clzll v < 56 \<longleftrightarrow> \<not> unat v < 2 ^ 8"
    using clzll_less [of 56 v] by (simp add: drop_bit_eq_0_unat)
  have z: "v = 0 \<Longrightarrow> drop_bit 32 v = 0" by simp
  show "objects (pack_int st v) = objects st @
     (if drop_bit 32 v \<noteq> 0 then
        [0x13, ucast (drop_bit 56 v), ucast (drop_bit 48 v), ucast (drop_bit 40 v),
         ucast (drop_bit 32 v), ucast (drop_bit 24 v), ucast (drop_bit 16 v),
         ucast (drop_bit 8 v), ucast v]
      else if unat v \<le> 255 then [0x10, ucast v]
      else if unat v \<le> 65535 then [0x11, ucast (drop_bit 8 v), ucast v]
      else [0x12, ucast (drop_bit 24 v), ucast (drop_bit 16 v), ucast (drop_bit 8 v), ucast v])"
    by (cases "v = 0")
      (auto simp: pack_int_def Let_def c32 c48 c56 be_bytes_8 be_bytes_4 store_swap16
        ucast_drop_ucast ucast_ucast_byte plist_type_int64_def plist_type_int32_def
        plist_type_int16_def plist_type_int8_def)
qed

theorem pack_int_encoding_witness:
  "sint (0xFFFFFFFFFFFFFFFE :: 64 word) < 0 \<and> drop_bit 32 (0xFFFFFFFFFFFFFFFE :: 64 word) \<noteq> 0 \<and>
   objects (pack_int initial_state 0xFFFFFFFFFFFFFFFE) =
     bplist_header @ [0x13, 0xFF, 0xFF, 0xFF, 0xFF, 0xFF, 0xFF, 0xFF, 0xFE] \<and>
   objects (pack_int initial_state 255) = bplist_header @ [0x10, 0xFF] \<and>
   objects (pack_int initial_state 256) = bplist_header @ [0x11, 0x01, 0x00] \<and>
   objects (pack_int initial_state 65536) = bplist_header @ [0x12, 0x00, 0x01, 0x00, 0x00]"
  using pack_int_encoding [of "0xFFFFFFFFFFFFFFFE" initial_state] pack_int_encoding [of 255 initial_state]
    pack_int_encoding [of 256 initial_state] pack_int_encoding [of 65536 initial_state]
  by (simp add: initial_state_def)

subsection \<open>The generator's state under its primitives\<close>

lemma trailer_set_fatal [simp]: "trailer (set_fatal e st) = trailer st"
  by (simp add: set_fatal_def)
lemma exc_set_fatal [simp]: "exc (set_fatal e st) = exc st"
  by (simp add: set_fatal_def)
lemma objects_set_fatal [simp]: "objects (set_fatal e st) = objects st"
  by (simp add: set_fatal_def)
lemma trailer_emit [simp]: "trailer (emit bs st) = trailer st"
  by (simp add: emit_def Let_def)
lemma exc_emit [simp]: "exc (emit bs st) = exc st"
  by (simp add: emit_def Let_def)
lemma trailer_pack_offsets [simp]: "trailer (pack_offsets w xs st) = trailer st"
  by (induction xs arbitrary: st) (auto split: option.splits)
lemma exc_pack_offsets [simp]: "exc (pack_offsets w xs st) = exc st"
  by (induction xs arbitrary: st) (auto split: option.splits)

subsection \<open>The choice of \<^verbatim>\<open>offset_size\<close>\<close>

lemma finalizer_overflow:
  "0xFFFFFFFF < length (objects st) \<Longrightarrow>
   generate_plist_offset_table_and_trailer st = (- 1, PyErr_Set ObjectSpaceOverflow st)"
  by (simp add: generate_plist_offset_table_and_trailer_def Let_def)

lemma finalizer_ok:
  "length (objects st) \<le> 0xFFFFFFFF \<Longrightarrow>
   fst (generate_plist_offset_table_and_trailer st) = 0 \<and>
   offset_size (trailer (snd (generate_plist_offset_table_and_trailer st))) =
     (if length (objects st) \<le> 0xFF then 1
      else if length (objects st) \<le> 0xFFFF then 2 else 4)"
  by (simp add: generate_plist_offset_table_and_trailer_def Let_def resize_plist_buffer_def)

text \<open>
  C6, as amended. With \<open>objects_length\<close> the number of bytes before
  \<^verbatim>\<open>current_object\<close>: \<^verbatim>\<open>generate_plist_offset_table_and_trailer\<close> fails (returns -1
  with the overflow error set) when \<open>objects_length\<close> exceeds \<open>2^32 - 1\<close>; otherwise it
  returns 0 and the \<^verbatim>\<open>offset_size\<close> it stores is the least element \<open>w\<close> of \<open>{1, 2, 4}\<close>
  with \<open>objects_length \<le> 2^(8 w) - 1\<close>. Minimality holds against the next smaller
  element of the set: for \<open>w > 1\<close>, \<open>objects_length > 2^(8 (w div 2)) - 1\<close>.
\<close>

theorem offset_size_selection:
  "(0xFFFFFFFF < length (objects st) \<longrightarrow>
      fst (generate_plist_offset_table_and_trailer st) = - 1 \<and>
      exc (snd (generate_plist_offset_table_and_trailer st)) = Some ObjectSpaceOverflow) \<and>
   (length (objects st) \<le> 0xFFFFFFFF \<longrightarrow>
      fst (generate_plist_offset_table_and_trailer st) = 0 \<and>
      (let w = unat (offset_size (trailer (snd (generate_plist_offset_table_and_trailer st))))
       in (w = 1 \<or> w = 2 \<or> w = 4) \<and>
          length (objects st) \<le> 2 ^ (8 * w) - 1 \<and>
          (\<forall>w'. (w' = 1 \<or> w' = 2 \<or> w' = 4) \<and> length (objects st) \<le> 2 ^ (8 * w') - 1
                \<longrightarrow> w \<le> w') \<and>
          (1 < w \<longrightarrow> 2 ^ (8 * (w div 2)) - 1 < length (objects st))))"
proof (intro conjI impI)
  assume "0xFFFFFFFF < length (objects st)"
  then show "fst (generate_plist_offset_table_and_trailer st) = - 1"
    and "exc (snd (generate_plist_offset_table_and_trailer st)) = Some ObjectSpaceOverflow"
    by (simp_all add: finalizer_overflow PyErr_Set_def)
next
  assume le: "length (objects st) \<le> 0xFFFFFFFF"
  then show "fst (generate_plist_offset_table_and_trailer st) = 0"
    by (simp add: finalizer_ok)
  consider (a) "length (objects st) \<le> 0xFF"
    | (b) "0xFF < length (objects st)" "length (objects st) \<le> 0xFFFF"
    | (c) "0xFFFF < length (objects st)"
    by linarith
  then show "let w = unat (offset_size (trailer (snd (generate_plist_offset_table_and_trailer st))))
       in (w = 1 \<or> w = 2 \<or> w = 4) \<and>
          length (objects st) \<le> 2 ^ (8 * w) - 1 \<and>
          (\<forall>w'. (w' = 1 \<or> w' = 2 \<or> w' = 4) \<and> length (objects st) \<le> 2 ^ (8 * w') - 1
                \<longrightarrow> w \<le> w') \<and>
          (1 < w \<longrightarrow> 2 ^ (8 * (w div 2)) - 1 < length (objects st))"
  proof cases
    case a
    with le show ?thesis by (auto simp: finalizer_ok)
  next
    case b
    with le show ?thesis by (auto simp: finalizer_ok)
  next
    case c
    with le show ?thesis by (auto simp: finalizer_ok)
  qed
qed

theorem offset_size_selection_witness:
  "0xFFFFFFFF < length (objects (initial_state\<lparr>objects := replicate (2 ^ 32) 0\<rparr>)) \<and>
   fst (generate_plist_offset_table_and_trailer (initial_state\<lparr>objects := replicate (2 ^ 32) 0\<rparr>)) = - 1 \<and>
   length (objects (initial_state\<lparr>objects := replicate 300 0\<rparr>)) \<le> 0xFFFFFFFF \<and>
   fst (generate_plist_offset_table_and_trailer (initial_state\<lparr>objects := replicate 300 0\<rparr>)) = 0 \<and>
   unat (offset_size (trailer (snd (generate_plist_offset_table_and_trailer
      (initial_state\<lparr>objects := replicate 300 0\<rparr>))))) = 2 \<and>
   (2::nat) ^ (8 * (2 div 2)) - 1 < length (objects (initial_state\<lparr>objects := replicate 300 0\<rparr>))"
proof -
  let ?big = "initial_state\<lparr>objects := replicate (2 ^ 32) 0\<rparr>"
  let ?small = "initial_state\<lparr>objects := replicate 300 0\<rparr>"
  let ?w = "unat (offset_size (trailer (snd (generate_plist_offset_table_and_trailer ?small))))"
  have big: "0xFFFFFFFF < length (objects ?big)" by simp
  have small: "length (objects ?small) \<le> 0xFFFFFFFF" by simp
  from offset_size_selection [of ?big] big
  have 1: "fst (generate_plist_offset_table_and_trailer ?big) = - 1" by blast
  from offset_size_selection [of ?small] small
  have 2: "fst (generate_plist_offset_table_and_trailer ?small) = 0"
    and 3: "?w = 1 \<or> ?w = 2 \<or> ?w = 4"
    and 4: "length (objects ?small) \<le> 2 ^ (8 * ?w) - 1"
    and 5: "1 < ?w \<longrightarrow> 2 ^ (8 * (?w div 2)) - 1 < length (objects ?small)"
    unfolding Let_def by blast+
  from 3 have "?w = 2"
  proof (elim disjE)
    assume "?w = 1" with 4 show ?thesis by simp
  next
    assume "?w = 2" then show ?thesis .
  next
    assume "?w = 4" with 5 show ?thesis by simp
  qed
  with big small 1 2 show ?thesis by simp
qed

text \<open>
  The claim's formula \<open>objects_length > 2^(8 (offset_size - 1)) - 1\<close> fails for
  \<open>offset_size = 4\<close>: with 65536 bytes written the size chosen is 4, and 65536 is not
  above \<open>2^24 - 1\<close>.
\<close>

theorem offset_size_minimality_counterexample:
  "offset_size (trailer (snd (generate_plist_offset_table_and_trailer
      (initial_state\<lparr>objects := replicate 65536 0\<rparr>)))) = 4 \<and>
   \<not> (2 ^ (8 * (4 - 1)) - 1 < length (objects (initial_state\<lparr>objects := replicate 65536 0\<rparr>)))"
  by (simp add: finalizer_ok)

subsection \<open>Evaluating the parser on a concrete buffer\<close>

lemmas parse_eval =
  parse_plist_def Let_def bplist_header_def check_int_width_def
  SwapBigToHost64_def SwapBigToHost32_def SwapBigToHost16_def le_bytes_8 le_bytes_4 le_bytes_2
  locate_object_def object_ref_of_def object_of_def ptr_add_def buffer_addr_def
  unpack_uint_def unpack_int_def load_def load8_def PyObject_CallObject_def
  parse_scalar_def parse_data_def parse_ascii_string_def parse_utf16_string_def
  parse_int_def parse_uid_def parse_float64_def parse_float32_def parse_date_def
  unpack_length_def array_head_def dict_head_def
  PyByteArray_FromStringAndSize_def PyUnicode_DecodeASCII_def PyUnicode_DecodeUTF16_def
  PyList_New_def PyDict_SetItem_def py_key_eq_def
  plist_type_int8_def plist_type_int16_def plist_type_int32_def plist_type_int64_def

subsection \<open>The bound on data and string payloads\<close>

text \<open>
  C8. For a data, ASCII or UTF-16 object whose length has been decoded, with \<open>p\<close> the
  start of the payload: when the end of the payload as the source computes it (\<open>p\<close>
  plus \<open>len\<close> bytes, or plus \<open>2 len\<close> bytes for UTF-16) is not strictly before
  \<open>object_end\<close>, the parser fails with the length error of that kind. The end computed
  is \<open>p + len\<close> whenever that address exists. In particular a payload that ends
  exactly at \<open>object_end\<close>, the start of the trailer, is rejected.
\<close>

theorem strict_length_bound:
  "unpack_length type a mem object = Some (len, p) \<Longrightarrow>
   (object_end \<le> ptr_add a p (sint len) \<longrightarrow>
      parse_data type a mem object object_end = Inl InvalidDataLength \<and>
      parse_ascii_string type a mem object object_end = Inl InvalidAsciiLength) \<and>
   (- (2 ^ 63) \<le> sint len * 2 \<and> sint len * 2 < 2 ^ 63 \<and>
    object_end \<le> ptr_add a p (sint len * 2) \<longrightarrow>
      parse_utf16_string type a mem object object_end = Inl InvalidUtf16Length) \<and>
   (0 \<le> a + p + sint len \<and> a + p + sint len < 2 ^ 64 \<longrightarrow>
      ptr_add a p (sint len) = p + sint len) \<and>
   (0 \<le> a + p + sint len * 2 \<and> a + p + sint len * 2 < 2 ^ 64 \<longrightarrow>
      ptr_add a p (sint len * 2) = p + sint len * 2)"
  by (simp add: parse_data_def parse_ascii_string_def parse_utf16_string_def Let_def
      ptr_add_def)

theorem strict_length_bound_witness:
  "unpack_length 0x42 buffer_addr (file_exact 0x42) 10 = Some (2, 10) \<and>
   ptr_add buffer_addr 10 (sint (2 :: 64 word)) = 12 \<and>
   parse_data 0x42 buffer_addr (file_exact 0x42) 10 12 = Inl InvalidDataLength \<and>
   parse_ascii_string 0x52 buffer_addr (file_exact 0x52) 10 12 = Inl InvalidAsciiLength \<and>
   parse_utf16_string 0x61 buffer_addr (file_exact 0x61) 10 12 = Inl InvalidUtf16Length \<and>
   parse_plist 1 buffer_addr (file_exact 0x42) = Some (Inl InvalidDataLength) \<and>
   parse_plist 1 buffer_addr (file_exact 0x52) = Some (Inl InvalidAsciiLength) \<and>
   parse_plist 1 buffer_addr (file_exact 0x61) = Some (Inl InvalidUtf16Length) \<and>
   parse_plist 1 buffer_addr (file_slack 0x42) = Some (Inr (PyByteArray [0x00, 0x41])) \<and>
   parse_plist 1 buffer_addr (file_slack 0x52) = Some (Inr (PyUnicode [0x00, 0x41])) \<and>
   parse_plist 1 buffer_addr (file_slack 0x61) = Some (Inr (PyUnicode [0x41]))"
proof -
  have u: "unpack_length 0x42 buffer_addr (file_exact 0x42) 10 = Some (2, 10)"
    "unpack_length 0x52 buffer_addr (file_exact 0x52) 10 = Some (2, 10)"
    "unpack_length 0x61 buffer_addr (file_exact 0x61) 10 = Some (1, 10)"
    by (simp_all add: unpack_length_def)
  have a: "(12 :: int) \<le> ptr_add buffer_addr 10 (sint (2 :: 64 word))"
    "ptr_add buffer_addr 10 (sint (2 :: 64 word)) = 12"
    by (simp_all add: ptr_add_def buffer_addr_def)
  have b: "- (2 ^ 63) \<le> sint (1 :: 64 word) * 2 \<and> sint (1 :: 64 word) * 2 < 2 ^ 63 \<and>
           (12 :: int) \<le> ptr_add buffer_addr 10 (sint (1 :: 64 word) * 2)"
    by (simp add: ptr_add_def buffer_addr_def)
  have p: "parse_plist 1 buffer_addr (file_exact 0x42) = Some (Inl InvalidDataLength)"
    "parse_plist 1 buffer_addr (file_exact 0x52) = Some (Inl InvalidAsciiLength)"
    "parse_plist 1 buffer_addr (file_exact 0x61) = Some (Inl InvalidUtf16Length)"
    "parse_plist 1 buffer_addr (file_slack 0x42) = Some (Inr (PyByteArray [0x00, 0x41]))"
    "parse_plist 1 buffer_addr (file_slack 0x52) = Some (Inr (PyUnicode [0x00, 0x41]))"
    "parse_plist 1 buffer_addr (file_slack 0x61) = Some (Inr (PyUnicode [0x41]))"
    by (simp_all add: file_exact_def file_slack_def parse_eval)
  from strict_length_bound [OF u(1), of 12] strict_length_bound [OF u(2), of 12]
    strict_length_bound [OF u(3), of 12] a b u p
  show ?thesis by simp
qed

subsection \<open>Reads are big-endian\<close>

lemma le_nat_bound: "le_nat bs < 256 ^ length bs"
proof (induction bs)
  case Nil
  then show ?case by simp
next
  case (Cons b bs)
  have "unat b < 256" using unsigned_less [of b] by simp
  with Cons show ?case by simp
qed

lemma le_nat_append: "le_nat (xs @ ys) = le_nat xs + 256 ^ length xs * le_nat ys"
  by (induction xs) (simp_all add: algebra_simps)

lemma be_nat_from_le_nat: "be_nat_from a bs = a * 256 ^ length bs + le_nat (rev bs)"
  by (induction bs arbitrary: a) (simp_all add: le_nat_append algebra_simps)

lemma be_nat_le_nat: "be_nat bs = le_nat (rev bs)"
  by (simp add: be_nat_def be_nat_from_le_nat)

lemma unat_le_word:
  "8 * length bs \<le> LENGTH('a) \<Longrightarrow> unat (le_word bs :: 'a::len word) = le_nat bs"
proof (induction bs)
  case Nil
  then show ?case by simp
next
  case (Cons b bs)
  let ?x = "le_word bs :: 'a word"
  from Cons.prems have len: "8 + 8 * length bs \<le> LENGTH('a)" by simp
  then have ih: "unat ?x = le_nat bs" using Cons.IH by simp
  have "256 ^ length bs = (2::nat) ^ (8 * length bs)"
    by (simp add: power_mult)
  also have "\<dots> \<le> 2 ^ (LENGTH('a) - 8)"
    using len by (intro power_increasing) simp_all
  finally have b1: "le_nat bs < 2 ^ (LENGTH('a) - 8)"
    using le_nat_bound [of bs] by linarith
  have "(2::nat) ^ LENGTH('a) = 2 ^ (8 + (LENGTH('a) - 8))"
    using len by simp
  also have "\<dots> = 2 ^ 8 * 2 ^ (LENGTH('a) - 8)"
    by (simp only: power_add)
  finally have pw: "(2::nat) ^ LENGTH('a) = 256 * 2 ^ (LENGTH('a) - 8)"
    by simp
  have b2: "256 * le_nat bs + 256 \<le> 2 ^ LENGTH('a)"
    using b1 pw by simp
  have bb: "unat b < 256" using unsigned_less [of b] by simp
  have "unat (push_bit 8 ?x) = take_bit LENGTH('a) (push_bit 8 (unat ?x))"
    by (rule unsigned_push_bit_eq)
  also have "\<dots> = push_bit 8 (unat ?x)"
    using b2 by (intro take_bit_nat_eq_self) (simp add: ih push_bit_eq_mult)
  finally have p: "unat (push_bit 8 ?x) = 256 * le_nat bs"
    by (simp add: ih push_bit_eq_mult)
  have "unat (ucast b :: 'a word) = take_bit LENGTH('a) (unat b)"
    by (rule unsigned_ucast_eq)
  also have "\<dots> = unat b"
    using b2 bb by (intro take_bit_nat_eq_self) simp
  finally have c: "unat (ucast b :: 'a word) = unat b" .
  have d: "(ucast b :: 'a word) OR push_bit 8 ?x = ucast b + push_bit 8 ?x"
    by (rule disjunctive_add [symmetric])
      (auto simp: bit_ucast_iff bit_push_bit_iff dest: bit_imp_le_length)
  have "unat (ucast b :: 'a word) + unat (push_bit 8 ?x) < 2 ^ LENGTH('a)"
    using b2 bb by (simp add: p c)
  then have "unat ((ucast b :: 'a word) + push_bit 8 ?x) = unat b + 256 * le_nat bs"
    by (simp add: unat_add_lem [THEN iffD1] p c)
  then show ?case by (simp add: d)
qed

lemma swap64_read:
  assumes "length bs = 8"
  shows "SwapBigToHost64 (le_word bs) = le_word (rev bs)"
    and "unat (SwapBigToHost64 (le_word bs)) = be_nat bs"
proof -
  have "le_bytes (length bs) (le_word bs :: 64 word) = bs"
    using assms by (intro le_bytes_le_word) simp
  then show a: "SwapBigToHost64 (le_word bs) = le_word (rev bs)"
    using assms by (simp add: SwapBigToHost64_def)
  show "unat (SwapBigToHost64 (le_word bs)) = be_nat bs"
    unfolding a be_nat_le_nat using assms by (intro unat_le_word) simp
qed

lemma load_length: "load mem p n = Some bs \<Longrightarrow> length bs = n"
  by (auto simp: load_def split: if_splits)

subsection \<open>Markers with high nibble 8\<close>

lemma byte_nibbles: "(m :: byte) = (m AND 0xF0) OR (m AND 0x0F)"
proof -
  have a: "(0xF0 :: byte) = push_bit 4 (mask 4)" by (simp add: mask_eq_exp_minus_1 push_bit_eq_mult)
  have b: "(0x0F :: byte) = mask 4" by (simp add: mask_eq_exp_minus_1)
  show ?thesis unfolding a b
    by (rule bit_eqI)
      (auto simp: bit_or_iff bit_and_iff bit_push_bit_iff bit_mask_iff dest: bit_imp_le_length)
qed

lemma uid_width:
  assumes "m AND 0xF0 = (0x80 :: byte)" "m \<noteq> 0x80" "m \<noteq> 0x81" "m \<noteq> 0x83"
  shows "(ucast (m AND 0xF) + 1 :: 64 word) \<noteq> 1"
    and "(ucast (m AND 0xF) + 1 :: 64 word) \<noteq> 2"
    and "(ucast (m AND 0xF) + 1 :: 64 word) \<noteq> 4"
proof -
  let ?l = "m AND 0xF"
  have m: "m = 0x80 OR ?l" using byte_nibbles [of m] assms(1) by simp
  have l: "?l \<noteq> 0" "?l \<noteq> 1" "?l \<noteq> 3"
    using m assms(2-4) by auto
  have lb: "unat ?l < 256" using unsigned_less [of ?l] by simp
  have "unat (ucast ?l :: 64 word) = take_bit 64 (unat ?l)"
    using unsigned_ucast_eq [of ?l, where ?'c = 64 and ?'a = nat] by simp
  also have "\<dots> = unat ?l"
    using lb by (intro take_bit_nat_eq_self) simp
  finally have u: "unat (ucast ?l :: 64 word) = unat ?l" .
  have "unat (ucast ?l :: 64 word) + unat (1 :: 64 word) < 2 ^ LENGTH(64)"
    using lb by (simp add: u)
  then have w: "unat (ucast ?l + 1 :: 64 word) = unat ?l + 1"
    by (simp add: unat_add_lem [THEN iffD1] u)
  have n: "unat ?l \<noteq> 0" "unat ?l \<noteq> 1" "unat ?l \<noteq> 3"
    using l by (simp_all add: word_unat_eq_iff)
  show "(ucast ?l + 1 :: 64 word) \<noteq> 1" "(ucast ?l + 1 :: 64 word) \<noteq> 2"
    "(ucast ?l + 1 :: 64 word) \<noteq> 4"
    using w n by (auto simp: word_unat_eq_iff)
qed

text \<open>
  C10. For a marker \<open>m\<close> with high nibble 8, \<^verbatim>\<open>parse_plist_object\<close> returns what
  \<^verbatim>\<open>parse_uid\<close> returns, whatever the low nibble: never the unknown-type error. When
  the low nibble is not 0, 1 or 3 (the width is not 1, 2 or 4), \<^verbatim>\<open>parse_uid\<close> reads
  eight bytes at the object pointer and returns the uid they denote in big-endian
  order (or the read leaves the buffer; or, when the object is the value of a dict
  item whose key has failed, the call of the uid class raises \<^verbatim>\<open>SystemError\<close>).
\<close>

theorem uid_marker_never_unknown:
  "m AND 0xF0 = 0x80 \<Longrightarrow>
   parse_scalar state pending m object = parse_uid pending m (data state) object \<and>
   (\<forall>t. parse_uid pending m mem object \<noteq> Inl (UnknownType t)) \<and>
   (locate_object state object_index = Inr (m, object) \<longrightarrow>
      parse_plist_object (Suc depth) state pending object_index =
        Some (parse_uid pending m (data state) object)) \<and>
   (m \<noteq> 0x80 \<and> m \<noteq> 0x81 \<and> m \<noteq> 0x83 \<longrightarrow>
      parse_uid pending m mem object =
        (case load mem object 8 of
           None \<Rightarrow> Inl UndefinedBehaviour
         | Some bs \<Rightarrow>
             if pending then Inl (HostError SystemError)
             else Inr (PyUid (int (be_nat bs)))))"
proof (intro conjI allI impI)
  assume m: "m AND 0xF0 = 0x80"
  show "parse_scalar state pending m object = parse_uid pending m (data state) object"
    using m by (simp add: parse_scalar_def)
  show "parse_uid pending m mem object \<noteq> Inl (UnknownType t)" for t
    by (simp add: parse_uid_def PyObject_CallObject_def Let_def split: option.splits)
  show "parse_plist_object (Suc depth) state pending object_index =
        Some (parse_uid pending m (data state) object)"
    if "locate_object state object_index = Inr (m, object)"
    using m that by (simp add: parse_scalar_def)
  show "parse_uid pending m mem object =
        (case load mem object 8 of
           None \<Rightarrow> Inl UndefinedBehaviour
         | Some bs \<Rightarrow>
             if pending then Inl (HostError SystemError)
             else Inr (PyUid (int (be_nat bs))))"
    if "m \<noteq> 0x80 \<and> m \<noteq> 0x81 \<and> m \<noteq> 0x83"
  proof -
    from that m have w: "(ucast (m AND 0xF) + 1 :: 64 word) \<noteq> 1"
      "(ucast (m AND 0xF) + 1 :: 64 word) \<noteq> 2" "(ucast (m AND 0xF) + 1 :: 64 word) \<noteq> 4"
      using uid_width [of m] by simp_all
    show ?thesis
    proof (cases "load mem object 8")
      case None
      then show ?thesis using w by (simp add: parse_uid_def unpack_uint_def Let_def)
    next
      case (Some bs)
      then have "length bs = 8" by (rule load_length)
      then have "uint (SwapBigToHost64 (le_word bs)) = int (be_nat bs)"
        using swap64_read(2) [of bs] by (simp add: uint_nat)
      then show ?thesis using w Some
        by (simp add: parse_uid_def unpack_uint_def PyObject_CallObject_def Let_def)
    qed
  qed
qed

theorem uid_marker_never_unknown_witness:
  "(0x82 :: byte) AND 0xF0 = 0x80 \<and>
   locate_object \<lparr> data_addr = buffer_addr, data = file_uid 0x82, data_end = 18,
                    p_ref_size = 1, p_offset_size = 1,
                    object_count = 1, offset_table = 17 \<rparr> 0 = Inr (0x82, 9) \<and>
   parse_plist 1 buffer_addr (file_uid 0x82) = Some (Inr (PyUid 0x0102030405060708)) \<and>
   parse_plist 1 buffer_addr (file_uid 0x8F) = Some (Inr (PyUid 0x0102030405060708)) \<and>
   parse_plist 1 buffer_addr (file_uid 0x83) = Some (Inr (PyUid 0x01020304))"
proof -
  let ?st = "\<lparr> data_addr = buffer_addr, data = file_uid 0x82, data_end = 18,
                p_ref_size = 1, p_offset_size = 1,
                object_count = 1, offset_table = 17 \<rparr>"
  have m: "(0x82 :: byte) AND 0xF0 = 0x80" by simp
  have l: "locate_object ?st 0 = Inr (0x82, 9)"
    by (simp add: file_uid_def parse_eval)
  have ld: "load (file_uid 0x82) 9 8 = Some [0x01, 0x02, 0x03, 0x04, 0x05, 0x06, 0x07, 0x08]"
    by (simp add: file_uid_def load_def bplist_header_def)
  have p: "parse_plist 1 buffer_addr (file_uid 0x82) = parse_plist_object 1 ?st False 0"
    by (simp add: file_uid_def parse_eval)
  have "parse_plist_object (Suc 0) ?st False 0 = Some (parse_uid False 0x82 (data ?st) 9)"
    using uid_marker_never_unknown [OF m, of ?st False 9 "file_uid 0x82" 0 0] l by blast
  moreover have "parse_uid False 0x82 (file_uid 0x82) 9 = Inr (PyUid 0x0102030405060708)"
    using uid_marker_never_unknown [OF m, of ?st False 9 "file_uid 0x82" 0 0] ld
    by (simp add: be_nat_def)
  ultimately have 1:
    "parse_plist 1 buffer_addr (file_uid 0x82) = Some (Inr (PyUid 0x0102030405060708))"
    using p by simp
  have 2: "parse_plist 1 buffer_addr (file_uid 0x8F) = Some (Inr (PyUid 0x0102030405060708))"
    "parse_plist 1 buffer_addr (file_uid 0x83) = Some (Inr (PyUid 0x01020304))"
    by (simp_all add: file_uid_def parse_eval)
  from m l 1 2 show ?thesis by simp
qed

subsection \<open>Evaluating the generator on a concrete object\<close>

lemma clzll_32: "clzll v < 32 \<longleftrightarrow> drop_bit 32 v \<noteq> 0"
  using clzll_less [of 32 v] by simp

lemma clzll_48: "clzll v < 48 \<longleftrightarrow> drop_bit 16 v \<noteq> 0"
  using clzll_less [of 48 v] by simp

lemma clzll_56: "clzll v < 56 \<longleftrightarrow> drop_bit 8 v \<noteq> 0"
  using clzll_less [of 56 v] by simp

lemma parse_plist_object_numeral:
  "parse_plist_object (numeral k) st e i = parse_plist_object (Suc (pred_numeral k)) st e i"
  by (simp only: numeral_eq_Suc)

lemma parse_array_items_numeral:
  "parse_array_items d st e (numeral k) p = parse_array_items d st e (Suc (pred_numeral k)) p"
  by (simp only: numeral_eq_Suc)

lemma parse_dict_items_numeral:
  "parse_dict_items d st e (numeral k) p q acc =
   parse_dict_items d st e (Suc (pred_numeral k)) p q acc"
  by (simp only: numeral_eq_Suc)

lemmas parse_eval_rec =
  parse_eval parse_plist_object_numeral parse_array_items_numeral parse_dict_items_numeral

lemma replicate_numeral: "replicate (numeral k) x = x # replicate (pred_numeral k) x"
  by (simp add: numeral_eq_Suc)

lemmas generate_eval =
  replicate_numeral
  generate_plist_def initial_state_def begin_object_def Let_def
  grow_offset_table_buffer_if_needed_def resize_plist_if_needed_def resize_plist_buffer_def
  generate_int_def generate_uid_def generate_float_def generate_date_def generate_other_def
  generate_string_def generate_ascii_def generate_utf16_def generate_data_def pack_data_def
  pack_type_and_length_def pack_int_def pack_uint_def array_begin_def dict_begin_def put_ref_def
  emit_def store_at_def set_fatal_def PyErr_Set_def raised_def
  generate_plist_offset_table_and_trailer_def trailer_bytes_def
  bplist_header_def SwapBigToHost64_def SwapBigToHost32_def SwapBigToHost16_def
  le_bytes_8 le_bytes_4 le_bytes_2 clzll_32 clzll_48 clzll_56
  plist_type_int8_def plist_type_int16_def plist_type_int32_def plist_type_int64_def

subsection \<open>Booleans\<close>

text \<open>
  C2, where the code departs from the claim. \<^verbatim>\<open>PyLong_Check\<close> holds for \<^verbatim>\<open>False\<close>, so
  \<^verbatim>\<open>generate_plist_object\<close> takes the \<^verbatim>\<open>generate_int\<close> branch and never reaches its
  test for \<^verbatim>\<open>PyBool_Type\<close>: the object emitted for \<^verbatim>\<open>False\<close> is the int \<open>10 00\<close>, not
  the marker \<open>08\<close>; the offset table (the one entry 8) starts at offset 10, and parsing
  the buffer, wherever it lies in the address space, gives the int 0, not \<^verbatim>\<open>False\<close>.
\<close>

lemma ptr_add_inside: "0 \<le> a + (p + n) \<Longrightarrow> a + (p + n) < 2 ^ 64 \<Longrightarrow> ptr_add a p n = p + n"
  by (simp add: ptr_add_def)

theorem generate_False:
  "generate_plist (PyBool False) =
     Inr ([0x62, 0x70, 0x6C, 0x69, 0x73, 0x74, 0x30, 0x30, 0x10, 0x00] @ [0x08] @
          [0, 0, 0, 0, 0, 0, 1, 2,  0, 0, 0, 0, 0, 0, 0, 1,  0, 0, 0, 0, 0, 0, 0, 0,
           0, 0, 0, 0, 0, 0, 0, 10]) \<and>
   (buffer_at a ([0x62, 0x70, 0x6C, 0x69, 0x73, 0x74, 0x30, 0x30, 0x10, 0x00] @ [0x08] @
          [0, 0, 0, 0, 0, 0, 1, 2,  0, 0, 0, 0, 0, 0, 0, 1,  0, 0, 0, 0, 0, 0, 0, 0,
           0, 0, 0, 0, 0, 0, 0, 10]) \<longrightarrow>
    parse_plist 1 a ([0x62, 0x70, 0x6C, 0x69, 0x73, 0x74, 0x30, 0x30, 0x10, 0x00] @ [0x08] @
          [0, 0, 0, 0, 0, 0, 1, 2,  0, 0, 0, 0, 0, 0, 0, 1,  0, 0, 0, 0, 0, 0, 0, 0,
           0, 0, 0, 0, 0, 0, 0, 10]) = Some (Inr (PyLong 0)))"
proof (intro conjI impI)
  show "generate_plist (PyBool False) =
     Inr ([0x62, 0x70, 0x6C, 0x69, 0x73, 0x74, 0x30, 0x30, 0x10, 0x00] @ [0x08] @
          [0, 0, 0, 0, 0, 0, 1, 2,  0, 0, 0, 0, 0, 0, 0, 1,  0, 0, 0, 0, 0, 0, 0, 0,
           0, 0, 0, 0, 0, 0, 0, 10])"
    by (simp add: generate_eval split del: if_split cong: if_weak_cong)
next
  assume "buffer_at a ([0x62, 0x70, 0x6C, 0x69, 0x73, 0x74, 0x30, 0x30, 0x10, 0x00] @ [0x08] @
          [0, 0, 0, 0, 0, 0, 1, 2,  0, 0, 0, 0, 0, 0, 0, 1,  0, 0, 0, 0, 0, 0, 0, 0,
           0, 0, 0, 0, 0, 0, 0, 10])"
  then have a: "0 < a" "a + 43 < 18446744073709551616" by (simp_all add: buffer_at_def)
  show "parse_plist 1 a ([0x62, 0x70, 0x6C, 0x69, 0x73, 0x74, 0x30, 0x30, 0x10, 0x00] @ [0x08] @
          [0, 0, 0, 0, 0, 0, 1, 2,  0, 0, 0, 0, 0, 0, 0, 1,  0, 0, 0, 0, 0, 0, 0, 0,
           0, 0, 0, 0, 0, 0, 0, 10]) = Some (Inr (PyLong 0))"
    using a by (simp add: parse_eval split del: if_split cong: if_weak_cong)
qed

theorem generate_False_witness:
  "buffer_at buffer_addr ([0x62, 0x70, 0x6C, 0x69, 0x73, 0x74, 0x30, 0x30, 0x10, 0x00] @ [0x08] @
          [0, 0, 0, 0, 0, 0, 1, 2,  0, 0, 0, 0, 0, 0, 0, 1,  0, 0, 0, 0, 0, 0, 0, 0,
           0, 0, 0, 0, 0, 0, 0, 10]) \<and>
   parse_plist 1 buffer_addr
     ([0x62, 0x70, 0x6C, 0x69, 0x73, 0x74, 0x30, 0x30, 0x10, 0x00] @ [0x08] @
          [0, 0, 0, 0, 0, 0, 1, 2,  0, 0, 0, 0, 0, 0, 0, 1,  0, 0, 0, 0, 0, 0, 0, 0,
           0, 0, 0, 0, 0, 0, 0, 10]) = Some (Inr (PyLong 0))"
proof -
  have b: "buffer_at buffer_addr ([0x62, 0x70, 0x6C, 0x69, 0x73, 0x74, 0x30, 0x30, 0x10, 0x00] @ [0x08] @
          [0, 0, 0, 0, 0, 0, 1, 2,  0, 0, 0, 0, 0, 0, 0, 1,  0, 0, 0, 0, 0, 0, 0, 0,
           0, 0, 0, 0, 0, 0, 0, 10])"
    by (simp add: buffer_at_def buffer_addr_def)
  with generate_False [of buffer_addr] show ?thesis by blast
qed

subsection \<open>The range checks of \<^verbatim>\<open>parse_plist_object\<close>\<close>

lemma uint_pos: "0 < uint x \<longleftrightarrow> uint x \<noteq> 0"
  using uint_ge_0 [of x] by linarith

lemma ptr_add_above:
  "2 ^ 64 \<le> a + (p + n) \<Longrightarrow> a + (p + n) < 2 ^ 65 \<Longrightarrow> ptr_add a p n = p + n - 2 ^ 64"
proof -
  assume a: "2 ^ 64 \<le> a + (p + n)" "a + (p + n) < 2 ^ 65"
  have "(a + p + n) mod 2 ^ 64 = (a + p + n - 2 ^ 64) mod 2 ^ 64"
    by (simp add: mod_diff_right_eq [symmetric])
  also have "\<dots> = a + p + n - 2 ^ 64"
    using a by (intro mod_pos_pos_trivial) simp_all
  finally show ?thesis by (simp add: ptr_add_def)
qed

lemma object_of_inside:
  assumes "buffer_at (data_addr st) (data st)" "data_end st \<le> int (length (data st))"
    and "int (unat off) < data_end st"
  shows "object_of st off = int (unat off)"
  using assms unfolding object_of_def buffer_at_def
  by (intro ptr_add_inside [THEN trans]) simp_all

lemma object_of_outside:
  assumes "buffer_at (data_addr st) (data st)" "data_end st \<le> int (length (data st))"
    and "data_end st \<le> int (unat off)"
  shows "object_of st off \<le> 0 \<or> data_end st \<le> object_of st off"
proof (cases "data_addr st + int (unat off) < 2 ^ 64")
  case True
  then have "object_of st off = int (unat off)"
    using assms(1) unfolding object_of_def buffer_at_def
    by (intro ptr_add_inside [THEN trans]) simp_all
  with assms(3) show ?thesis by simp
next
  case False
  have "int (unat off) < 2 ^ 64" using unsigned_less [of off, where ?'a = int] by simp
  with assms(1) have "data_addr st + (0 + int (unat off)) < 2 ^ 65"
    by (simp add: buffer_at_def)
  with False have "object_of st off = 0 + int (unat off) - 2 ^ 64"
    unfolding object_of_def by (intro ptr_add_above) simp_all
  then show ?thesis using \<open>int (unat off) < 2 ^ 64\<close> by simp
qed

lemma bad_ref:
  "object_ref_of st idx \<le> 0 \<or> data_end st \<le> object_ref_of st idx \<Longrightarrow>
   locate_object st idx = Inl InvalidObjectIndex"
  by (auto simp: locate_object_def Let_def)

lemma bad_offset:
  assumes "buffer_at (data_addr st) (data st)" "data_end st \<le> int (length (data st))"
    and "0 < object_ref_of st idx" "object_ref_of st idx < data_end st"
    and "unpack_uint (p_offset_size st) (data st) (object_ref_of st idx) = Some off"
    and "unat off = 0 \<or> data_end st \<le> int (unat off)"
  shows "locate_object st idx = Inl ObjectOutOfBounds"
proof -
  have "object_of st off \<le> 0 \<or> data_end st \<le> object_of st off"
  proof (cases "data_end st \<le> int (unat off)")
    case True
    then show ?thesis using object_of_outside [OF assms(1,2)] by simp
  next
    case False
    with assms(6) have z: "unat off = 0" by simp
    with False have "object_of st off = int (unat off)"
      using object_of_inside [OF assms(1,2), of off] by simp
    with z show ?thesis by simp
  qed
  then show ?thesis using assms(3-5) by (auto simp: locate_object_def Let_def)
qed

lemma good_offset:
  assumes "buffer_at (data_addr st) (data st)" "data_end st \<le> int (length (data st))"
    and "0 < object_ref_of st idx" "object_ref_of st idx < data_end st"
    and "unpack_uint (p_offset_size st) (data st) (object_ref_of st idx) = Some off"
    and "0 < unat off" "int (unat off) < data_end st"
  shows "locate_object st idx = Inr (data st ! unat off, int (unat off) + 1)"
proof -
  have o: "object_of st off = int (unat off)"
    using object_of_inside [OF assms(1,2,7)] .
  have "int (unat off) < int (length (data st))" using assms(2,7) by linarith
  then have "unat off < length (data st)" unfolding of_nat_less_iff .
  then have "load8 (data st) (int (unat off)) = Some (data st ! unat off)"
    unfolding load8_def by simp
  moreover have "0 < int (unat off)" using assms(6) by (simp add: uint_pos uint_0_iff unat_gt_0)
  ultimately show ?thesis using assms(3-5,7)
    by (simp add: locate_object_def Let_def o)
qed

lemma parse_plist_object_locate_Inl:
  "locate_object st idx = Inl e \<Longrightarrow> parse_plist_object (Suc d) st pending idx = Some (Inl e)"
  by simp

lemma parse_plist_object_Inr:
  "parse_plist_object d st pending idx = Some (Inr v) \<Longrightarrow> \<exists>m p. locate_object st idx = Inr (m, p)"
  by (cases d) (auto split: sum.splits)

text \<open>
  C3, as amended. When \<^verbatim>\<open>parse_plist_object\<close> has read the offset \<open>off\<close> of an object
  from the slot of the offset table (the slot being at the address the source computes,
  in a buffer that lies in the address space), it fails with the out-of-bounds error
  unless \<open>0 < off < data_end\<close>, where \<open>data_end\<close> is the start of the trailer: offset 0
  and the offsets at or beyond the trailer are rejected, and an object that parses has
  its offset in that range. Every offset in the range is accepted: the marker is read
  there, be it inside the header (offsets 1 to 7) or inside the offset table.
\<close>

theorem object_offset_check:
  "buffer_at (data_addr st) (data st) \<Longrightarrow> data_end st \<le> int (length (data st)) \<Longrightarrow>
   0 < object_ref_of st idx \<Longrightarrow> object_ref_of st idx < data_end st \<Longrightarrow>
   unpack_uint (p_offset_size st) (data st) (object_ref_of st idx) = Some off \<Longrightarrow>
   (unat off = 0 \<or> data_end st \<le> int (unat off) \<longrightarrow>
      locate_object st idx = Inl ObjectOutOfBounds \<and>
      parse_plist_object (Suc d) st pending idx = Some (Inl ObjectOutOfBounds)) \<and>
   (0 < unat off \<and> int (unat off) < data_end st \<longrightarrow>
      locate_object st idx = Inr (data st ! unat off, int (unat off) + 1)) \<and>
   (parse_plist_object d' st pending idx = Some (Inr v) \<longrightarrow>
      0 < unat off \<and> int (unat off) < data_end st)"
proof (intro conjI impI)
  assume h: "buffer_at (data_addr st) (data st)" "data_end st \<le> int (length (data st))"
    "0 < object_ref_of st idx" "object_ref_of st idx < data_end st"
    "unpack_uint (p_offset_size st) (data st) (object_ref_of st idx) = Some off"
  {
    assume "unat off = 0 \<or> data_end st \<le> int (unat off)"
    from bad_offset [OF h this]
    show "locate_object st idx = Inl ObjectOutOfBounds" .
    then show "parse_plist_object (Suc d) st pending idx = Some (Inl ObjectOutOfBounds)"
      by simp
  next
    assume "0 < unat off \<and> int (unat off) < data_end st"
    then show "locate_object st idx = Inr (data st ! unat off, int (unat off) + 1)"
      using good_offset [OF h] by simp
  next
    assume "parse_plist_object d' st pending idx = Some (Inr v)"
    then obtain m p where l: "locate_object st idx = Inr (m, p)"
      using parse_plist_object_Inr by blast
    have n: "\<not> (unat off = 0 \<or> data_end st \<le> int (unat off))"
    proof
      assume "unat off = 0 \<or> data_end st \<le> int (unat off)"
      from bad_offset [OF h this] l show False by simp
    qed
    from n show "0 < unat off" by simp
    from n show "int (unat off) < data_end st" by simp
  }
qed

theorem object_offset_check_witness:
  "buffer_at buffer_addr (file_offset 0) \<and>
   object_ref_of \<lparr> data_addr = buffer_addr, data = file_offset 0, data_end = 10,
                    p_ref_size = 1, p_offset_size = 1, object_count = 1,
                    offset_table = 9 \<rparr> 0 = 9 \<and>
   unpack_uint 1 (file_offset 0) 9 = Some 0 \<and>
   parse_plist 1 buffer_addr (file_offset 0) = Some (Inl ObjectOutOfBounds) \<and>
   parse_plist 1 buffer_addr (file_offset 10) = Some (Inl ObjectOutOfBounds) \<and>
   parse_plist 1 buffer_addr (file_offset 8) = Some (Inr (PyBool False)) \<and>
   locate_object \<lparr> data_addr = buffer_addr, data = file_offset 9, data_end = 10,
                    p_ref_size = 1, p_offset_size = 1, object_count = 1,
                    offset_table = 9 \<rparr> 0 = Inr (0x09, 10) \<and>
   locate_object \<lparr> data_addr = buffer_addr, data = file_header_offset, data_end = 24,
                    p_ref_size = 1, p_offset_size = 1, object_count = 1,
                    offset_table = 23 \<rparr> 0 = Inr (0x69, 4)"
proof -
  let ?st = "\<lambda>e. \<lparr> data_addr = buffer_addr, data = file_offset e, data_end = 10,
                    p_ref_size = 1, p_offset_size = 1, object_count = 1, offset_table = 9 \<rparr>"
  let ?hd = "\<lparr> data_addr = buffer_addr, data = file_header_offset, data_end = 24,
                p_ref_size = 1, p_offset_size = 1, object_count = 1, offset_table = 23 \<rparr>"
  have p: "parse_plist 1 buffer_addr (file_offset e) = parse_plist_object (Suc 0) (?st e) False 0"
    for e
    by (simp add: file_offset_def parse_eval split del: if_split cong: if_weak_cong)
  have b: "buffer_at (data_addr (?st e)) (data (?st e))"
    "data_end (?st e) \<le> int (length (data (?st e)))" for e
    by (simp_all add: buffer_at_def buffer_addr_def file_offset_def bplist_header_def)
  have r: "object_ref_of (?st e) 0 = 9" for e
    by (simp add: object_ref_of_def ptr_add_def buffer_addr_def)
  have u: "unpack_uint (p_offset_size (?st e)) (data (?st e)) (object_ref_of (?st e) 0)
             = Some (ucast e)" for e
    unfolding r by (simp add: file_offset_def unpack_uint_def load_def bplist_header_def)
  have 1: "parse_plist_object (Suc 0) (?st 0) False 0 = Some (Inl ObjectOutOfBounds)"
    using object_offset_check [OF b [of 0] _ _ u [of 0], unfolded r, of 0 False] by simp
  have 2: "parse_plist_object (Suc 0) (?st 10) False 0 = Some (Inl ObjectOutOfBounds)"
    using object_offset_check [OF b [of 10] _ _ u [of 10], unfolded r, of 0 False] by simp
  have 3: "parse_plist 1 buffer_addr (file_offset 8) = Some (Inr (PyBool False))"
    by (simp add: file_offset_def parse_eval_rec split del: if_split cong: if_weak_cong)
  have 4: "locate_object (?st 9) 0 = Inr (0x09, 10)"
    using object_offset_check [OF b [of 9] _ _ u [of 9], unfolded r]
    by (simp add: file_offset_def bplist_header_def)
  have bh: "buffer_at (data_addr ?hd) (data ?hd)" "data_end ?hd \<le> int (length (data ?hd))"
    by (simp_all add: buffer_at_def buffer_addr_def file_header_offset_def bplist_header_def)
  have rh: "object_ref_of ?hd 0 = 23"
    by (simp add: object_ref_of_def ptr_add_def buffer_addr_def)
  have uh: "unpack_uint (p_offset_size ?hd) (data ?hd) (object_ref_of ?hd 0) = Some 3"
    unfolding rh by (simp add: file_header_offset_def unpack_uint_def load_def bplist_header_def)
  have 5: "locate_object ?hd 0 = Inr (0x69, 4)"
    using object_offset_check [OF bh _ _ uh, unfolded rh]
    by (simp add: file_header_offset_def bplist_header_def)
  have 0: "unpack_uint 1 (file_offset 0) 9 = Some 0"
    using u [of 0] by (simp add: r)
  from b [of 0] r [of 0] 0 1 2 3 4 5 p show ?thesis by simp
qed

text \<open>
  Against the claim as stated: an offset equal to \<^verbatim>\<open>offset_table_offset\<close> (the entry 9
  of a table at offset 9, which designates the table's own byte 09) is accepted and
  parses as \<^verbatim>\<open>True\<close>; and the offset 3, inside the header, is accepted and parses the
  header byte 69 as a UTF-16 string of nine units.
\<close>

theorem object_offset_check_counterexample:
  "parse_plist 1 buffer_addr (file_offset 9) = Some (Inr (PyBool True)) \<and>
   parse_plist 1 buffer_addr file_header_offset =
     Some (Inr (PyUnicode [0x7374, 0x3030, 0x41, 0x41, 0x41, 0x41, 0x41, 0x41, 0x41]))"
  by (simp add: file_offset_def file_header_offset_def parse_eval_rec
      split del: if_split cong: if_weak_cong)

lemma count_irrelevant:
  "parse_plist_object d (st\<lparr>object_count := c\<rparr>) e idx = parse_plist_object d st e idx"
  "parse_array_items d (st\<lparr>object_count := c\<rparr>) e n p = parse_array_items d st e n p"
  "parse_dict_items d (st\<lparr>object_count := c\<rparr>) e n k v acc = parse_dict_items d st e n k v acc"
proof (induction d st e idx and d st e n p and d st e n k v acc
    rule: parse_plist_object_parse_array_items_parse_dict_items.induct)
  case (1 state pending object_index)
  then show ?case by simp
next
  case (2 depth state pending object_index)
  have l: "locate_object (state\<lparr>object_count := c\<rparr>) object_index = locate_object state object_index"
    by (simp add: locate_object_def object_ref_of_def object_of_def Let_def
        cong: option.case_cong if_cong)
  have s: "\<And>t p. parse_scalar (state\<lparr>object_count := c\<rparr>) pending t p = parse_scalar state pending t p"
    by (simp add: parse_scalar_def Let_def cong: if_cong)
  have a: "\<And>t p e. array_head (state\<lparr>object_count := c\<rparr>) t p e = array_head state t p e"
    by (simp add: array_head_def cong: option.case_cong prod.case_cong if_cong)
  have d: "\<And>t p e. dict_head (state\<lparr>object_count := c\<rparr>) t p e = dict_head state t p e"
    by (simp add: dict_head_def cong: option.case_cong prod.case_cong if_cong)
  show ?case using 2
    by (simp add: l s a d split: sum.splits prod.splits)
next
  case (3 depth state pending object)
  then show ?case by simp
next
  case (4 depth state pending n object)
  then show ?case by (simp split: option.splits sum.splits)
next
  case (5 depth state pending key_object val_object dict)
  then show ?case by simp
next
  case (6 depth state pending n key_object val_object dict)
  then show ?case by (simp split: option.splits sum.splits)
qed

lemma bad_ref_object:
  "\<not> object_ref_ok st r \<Longrightarrow>
   parse_plist_object (Suc d) st pending r = Some (Inl InvalidObjectIndex)"
  using bad_ref [of st r] by (simp add: object_ref_ok_def not_less)

lemma good_ref: "object_ref_ok st r \<Longrightarrow> locate_object st r \<noteq> Inl InvalidObjectIndex"
  by (auto simp: locate_object_def object_ref_ok_def Let_def split: option.splits)

lemma object_ref_ok_count [simp]:
  "object_ref_ok (st\<lparr>object_count := c\<rparr>) r = object_ref_ok st r"
  by (simp add: object_ref_ok_def object_ref_of_def)

text \<open>
  C4, as amended. The test \<^verbatim>\<open>parse_plist_object\<close> applies to an object index is on
  the pointer to its slot, \<open>offset_table + index * offset_size\<close> as the source computes
  it (a 64-bit product added to a 64-bit address, \<open>object_ref_of\<close>): the index is
  rejected with the invalid-index error when that pointer is not strictly between the
  start of the buffer and \<open>data_end\<close>, and followed otherwise. A rejected reference
  at the head of the loop of \<^verbatim>\<open>parse_array\<close> fails the array with that error. In
  \<^verbatim>\<open>parse_dict\<close> a rejected value reference fails the dict with that error; after a
  rejected key reference the value is still parsed, and the dict fails with the
  value's error if it has one and with the invalid-index error if not. The object
  count of the trailer takes no part: the test and the result are the same for every
  value of \<^verbatim>\<open>object_count\<close>.
\<close>

theorem object_ref_check:
  "(\<not> object_ref_ok st r \<longrightarrow>
      locate_object st r = Inl InvalidObjectIndex \<and>
      parse_plist_object (Suc d) st pending r = Some (Inl InvalidObjectIndex)) \<and>
   (object_ref_ok st r \<longrightarrow> locate_object st r \<noteq> Inl InvalidObjectIndex) \<and>
   (unpack_uint (p_ref_size st) (data st) p = Some r \<and> \<not> object_ref_ok st r \<longrightarrow>
      parse_array_items (Suc d) st pending (Suc n) p = Some (Inl InvalidObjectIndex)) \<and>
   (unpack_uint (p_ref_size st) (data st) k = Some r' \<and>
    unpack_uint (p_ref_size st) (data st) v = Some r \<and> \<not> object_ref_ok st r \<and>
    parse_plist_object (Suc d) st pending r' \<noteq> None \<longrightarrow>
      parse_dict_items (Suc d) st pending (Suc n) k v acc = Some (Inl InvalidObjectIndex)) \<and>
   (unpack_uint (p_ref_size st) (data st) k = Some r \<and>
    unpack_uint (p_ref_size st) (data st) v = Some r' \<and> \<not> object_ref_ok st r \<longrightarrow>
      parse_dict_items (Suc d) st pending (Suc n) k v acc =
        (case parse_plist_object (Suc d) st True r' of
           None \<Rightarrow> None
         | Some (Inl e) \<Rightarrow> Some (Inl e)
         | Some (Inr val_obj) \<Rightarrow> Some (Inl InvalidObjectIndex))) \<and>
   object_ref_ok (st\<lparr>object_count := c\<rparr>) r = object_ref_ok st r \<and>
   parse_plist_object d (st\<lparr>object_count := c\<rparr>) pending r =
     parse_plist_object d st pending r"
proof (intro conjI impI)
  show "locate_object st r = Inl InvalidObjectIndex" if "\<not> object_ref_ok st r"
    using that bad_ref [of st r] by (simp add: object_ref_ok_def not_less)
  show "parse_plist_object (Suc d) st pending r = Some (Inl InvalidObjectIndex)"
    if "\<not> object_ref_ok st r"
    using that by (rule bad_ref_object)
  show "locate_object st r \<noteq> Inl InvalidObjectIndex" if "object_ref_ok st r"
    using that by (rule good_ref)
  show "parse_array_items (Suc d) st pending (Suc n) p = Some (Inl InvalidObjectIndex)"
    if "unpack_uint (p_ref_size st) (data st) p = Some r \<and> \<not> object_ref_ok st r"
    using that bad_ref_object [of st r d pending] by simp
  show "parse_dict_items (Suc d) st pending (Suc n) k v acc = Some (Inl InvalidObjectIndex)"
    if "unpack_uint (p_ref_size st) (data st) k = Some r' \<and>
        unpack_uint (p_ref_size st) (data st) v = Some r \<and> \<not> object_ref_ok st r \<and>
        parse_plist_object (Suc d) st pending r' \<noteq> None"
  proof -
    from that obtain key_res where
      kr: "parse_plist_object (Suc d) st pending r' = Some key_res" by auto
    have "parse_plist_object (Suc d) st (pending \<or> isl key_res) r = Some (Inl InvalidObjectIndex)"
      using that by (intro bad_ref_object) simp
    then show ?thesis using that kr by simp
  qed
  show "parse_dict_items (Suc d) st pending (Suc n) k v acc =
        (case parse_plist_object (Suc d) st True r' of
           None \<Rightarrow> None
         | Some (Inl e) \<Rightarrow> Some (Inl e)
         | Some (Inr val_obj) \<Rightarrow> Some (Inl InvalidObjectIndex))"
    if "unpack_uint (p_ref_size st) (data st) k = Some r \<and>
        unpack_uint (p_ref_size st) (data st) v = Some r' \<and> \<not> object_ref_ok st r"
  proof -
    have "parse_plist_object (Suc d) st pending r = Some (Inl InvalidObjectIndex)"
      using that by (intro bad_ref_object) simp
    then show ?thesis using that by (simp split: option.splits sum.splits)
  qed
  show "object_ref_ok (st\<lparr>object_count := c\<rparr>) r = object_ref_ok st r"
    by simp
  show "parse_plist_object d (st\<lparr>object_count := c\<rparr>) pending r =
        parse_plist_object d st pending r"
    by (rule count_irrelevant)
qed

theorem object_ref_check_witness:
  "\<not> object_ref_ok \<lparr> data_addr = buffer_addr, data = file_ref 2 3, data_end = 13,
                       p_ref_size = 1, p_offset_size = 1,
                       object_count = 3, offset_table = 11 \<rparr> 2 \<and>
   unpack_uint 1 (file_ref 2 3) 9 = Some 2 \<and>
   parse_array_items 1 \<lparr> data_addr = buffer_addr, data = file_ref 2 3, data_end = 13,
                          p_ref_size = 1, p_offset_size = 1,
                          object_count = 3, offset_table = 11 \<rparr> False 1 9 =
     Some (Inl InvalidObjectIndex) \<and>
   parse_plist 2 buffer_addr (file_ref 2 3) = Some (Inl InvalidObjectIndex) \<and>
   object_ref_ok \<lparr> data_addr = buffer_addr, data = file_wrap, data_end = 20,
                    p_ref_size = 8, p_offset_size = 1,
                    object_count = 1, offset_table = 19 \<rparr> 0xFFFFFFFFFFFFFFFF \<and>
   object_ref_of \<lparr> data_addr = buffer_addr, data = file_wrap, data_end = 20,
                    p_ref_size = 8, p_offset_size = 1,
                    object_count = 1, offset_table = 19 \<rparr> 0xFFFFFFFFFFFFFFFF = 18 \<and>
   locate_object \<lparr> data_addr = buffer_addr, data = file_wrap, data_end = 20,
                    p_ref_size = 8, p_offset_size = 1,
                    object_count = 1, offset_table = 19 \<rparr> 0xFFFFFFFFFFFFFFFF = Inr (0x08, 18) \<and>
   parse_plist 2 buffer_addr file_wrap = Some (Inr (PyList [PyBool False])) \<and>
   parse_plist 2 buffer_addr file_dict =
     Some (Inr (PyDict [(PyUnicode [0x61], PyBool True)])) \<and>
   \<not> object_ref_ok \<lparr> data_addr = buffer_addr, data = file_bad_key, data_end = 15,
                       p_ref_size = 1, p_offset_size = 1,
                       object_count = 2, offset_table = 13 \<rparr> 5 \<and>
   parse_dict_items 1 \<lparr> data_addr = buffer_addr, data = file_bad_key, data_end = 15,
                         p_ref_size = 1, p_offset_size = 1,
                         object_count = 2, offset_table = 13 \<rparr> False 1 9 10 [] =
     Some (Inl (HostError SystemError)) \<and>
   parse_plist 2 buffer_addr file_bad_key = Some (Inl (HostError SystemError))"
proof -
  let ?key = "\<lparr> data_addr = buffer_addr, data = file_bad_key, data_end = 15,
                 p_ref_size = 1, p_offset_size = 1,
                 object_count = 2, offset_table = 13 \<rparr>"
  let ?bad = "\<lparr> data_addr = buffer_addr, data = file_ref 2 3, data_end = 13,
                 p_ref_size = 1, p_offset_size = 1,
                 object_count = 3, offset_table = 11 \<rparr>"
  let ?wrap = "\<lparr> data_addr = buffer_addr, data = file_wrap, data_end = 20,
                  p_ref_size = 8, p_offset_size = 1,
                  object_count = 1, offset_table = 19 \<rparr>"
  have b: "\<not> object_ref_ok ?bad 2"
    by (simp add: object_ref_ok_def object_ref_of_def ptr_add_def buffer_addr_def)
  have u: "unpack_uint (p_ref_size ?bad) (data ?bad) 9 = Some 2"
    by (simp add: file_ref_def unpack_uint_def load_def bplist_header_def)
  have 0: "parse_array_items (Suc 0) ?bad False (Suc 0) 9 = Some (Inl InvalidObjectIndex)"
    using object_ref_check [where st = ?bad and r = 2 and d = 0 and p = 9 and n = 0
        and pending = False] b u by blast
  have 1: "parse_plist 2 buffer_addr (file_ref 2 3) = Some (Inl InvalidObjectIndex)"
    by (simp add: file_ref_def parse_eval_rec split del: if_split cong: if_weak_cong)
  have r: "object_ref_of ?wrap 0xFFFFFFFFFFFFFFFF = 18"
    by (simp add: object_ref_of_def ptr_add_def buffer_addr_def)
  have w: "object_ref_ok ?wrap 0xFFFFFFFFFFFFFFFF"
    unfolding object_ref_ok_def r by simp
  have l: "locate_object ?wrap 0xFFFFFFFFFFFFFFFF = Inr (0x08, 18)"
    by (simp add: file_wrap_def parse_eval split del: if_split cong: if_weak_cong)
  have 2: "locate_object ?wrap 0xFFFFFFFFFFFFFFFF \<noteq> Inl InvalidObjectIndex"
    using object_ref_check [where st = ?wrap and r = "0xFFFFFFFFFFFFFFFF"] w by blast
  have 3: "parse_plist 2 buffer_addr file_wrap = Some (Inr (PyList [PyBool False]))"
    by (simp add: file_wrap_def parse_eval_rec split del: if_split cong: if_weak_cong)
  have 4: "parse_plist 2 buffer_addr file_dict =
     Some (Inr (PyDict [(PyUnicode [0x61], PyBool True)]))"
    by (simp add: file_dict_def parse_eval_rec split del: if_split cong: if_weak_cong)
  have kb: "\<not> object_ref_ok ?key 5"
    by (simp add: object_ref_ok_def object_ref_of_def ptr_add_def buffer_addr_def)
  have ku: "unpack_uint (p_ref_size ?key) (data ?key) 9 = Some 5"
    "unpack_uint (p_ref_size ?key) (data ?key) 10 = Some 1"
    by (simp_all add: file_bad_key_def unpack_uint_def load_def bplist_header_def)
  have kv: "parse_plist_object (Suc 0) ?key True 1 = Some (Inl (HostError SystemError))"
    by (simp add: file_bad_key_def parse_eval split del: if_split cong: if_weak_cong)
  have 5: "parse_dict_items (Suc 0) ?key False (Suc 0) 9 10 [] =
     Some (Inl (HostError SystemError))"
    using object_ref_check [where st = ?key and r = 5 and r' = 1 and d = 0 and k = 9
        and v = 10 and n = 0 and pending = False and acc = "[]"] kb ku kv
    by simp
  have 6: "parse_plist 2 buffer_addr file_bad_key = Some (Inl (HostError SystemError))"
    by (simp add: file_bad_key_def parse_eval_rec split del: if_split cong: if_weak_cong)
  from b u 0 1 r w l 2 3 4 kb 5 6 show ?thesis by simp
qed

text \<open>
  Against the claim as stated: with one object declared (or none), the array's
  reference 1 is not below the object count, and it is followed all the same.
\<close>

theorem object_ref_check_counterexample:
  "parse_plist 2 buffer_addr (file_ref 1 1) = Some (Inr (PyList [PyBool False])) \<and>
   parse_plist 2 buffer_addr (file_ref 1 0) = Some (Inr (PyList [PyBool False]))"
  by (simp add: file_ref_def parse_eval_rec split del: if_split cong: if_weak_cong)

end
